theory Spec2Isabelle
  imports Main "HOL-Library.Sublist" "HOL-Library.Char_ord" "HOL-Library.List_Lexorder"
begin

section \<open>Antigravity account switcher: the embedding\<close>

text \<open>
  The repository has two programs. \<^verbatim>\<open>scripts/profile_manager.ps1\<close> (PowerShell) keeps
  the saved profiles, one directory per profile below \<^verbatim>\<open>%APPDATA%\Antigravity\Profiles\<close>,
  and swaps the live session directory \<^verbatim>\<open>%APPDATA%\Antigravity\User\<close>.
  \<^verbatim>\<open>extension.js\<close> (JavaScript) is the editor extension: it runs the script, keeps the
  active-profile pointer in \<^verbatim>\<open>active_profile.txt\<close>, and watches diagnostics and the log
  for rate-limit messages.

  Both are modelled by state passing over one record, \<open>world\<close>, that holds what the two
  programs read and write on the machine. Modelling decisions that hold throughout:
  \<^item> Strings are byte strings. \<open>toLowerCase\<close> maps \<open>A\<close>..\<open>Z\<close> to \<open>a\<close>..\<open>z\<close> and leaves
    every other byte alone, which is what JavaScript's \<^verbatim>\<open>toLowerCase\<close>, PowerShell's
    case-insensitive \<^verbatim>\<open>-eq\<close> and the Windows file system do on ASCII text; the script
    is modelled only where all names at hand are ASCII.
  \<^item> The script hands \<^verbatim>\<open>Join-Path $ProfilesStorePath $Name\<close> to the \<^verbatim>\<open>-Path\<close> parameter of
    \<^verbatim>\<open>Test-Path\<close>, \<^verbatim>\<open>Remove-Item\<close> and \<^verbatim>\<open>Copy-Item\<close>, which expands wildcards and resolves
    relative components. The model follows this for names of printable ASCII
    characters that are one path component, with the wildcards \<^verbatim>\<open>*\<close>, \<^verbatim>\<open>?\<close> and
    \<^verbatim>\<open>[...]\<close>. A run with any other name (\<^verbatim>\<open>.\<close>, \<^verbatim>\<open>..\<close>, a name with a separator, a
    character outside ASCII, ...) ends in \<open>NotModelled\<close>: the model does not say what the
    script does there.
  \<^item> Below \<^verbatim>\<open>Profiles\<close> there are only the profile directories; the script puts nothing
    else there.
  \<^item> A file-system command the script issues (remove, rename, copy) does what it says;
    the failures the script itself tests for (a missing directory, a missing executable)
    are branches of the model.
  \<^item> The order in which \<^verbatim>\<open>Get-ChildItem\<close> lists the profile directories is the file
    system's. The model keeps them in a list and puts a new directory last; no property
    below depends on where a new directory stands. A new directory's creation time is
    the time of the run that creates it.
  \<^item> Each event handler of the extension runs as one step.
\<close>

subsection \<open>Strings\<close>

definition toLowerCase_char :: "char \<Rightarrow> char" where
  "toLowerCase_char c =
     (case map_of (zip ''ABCDEFGHIJKLMNOPQRSTUVWXYZ'' ''abcdefghijklmnopqrstuvwxyz'') c of
        None \<Rightarrow> c
      | Some l \<Rightarrow> l)"

definition toLowerCase :: "string \<Rightarrow> string" where
  "toLowerCase s = map toLowerCase_char s"

text \<open>\<^verbatim>\<open>s.startsWith(p)\<close> and \<^verbatim>\<open>s.includes(p)\<close>: \<open>p\<close> occurs in \<open>s\<close> at some offset.\<close>

fun startsWith :: "string \<Rightarrow> string \<Rightarrow> bool" where
  "startsWith s [] = True"
| "startsWith [] (p # ps) = False"
| "startsWith (c # cs) (p # ps) = (c = p \<and> startsWith cs ps)"

fun str_includes :: "string \<Rightarrow> string \<Rightarrow> bool" where
  "str_includes [] p = startsWith [] p"
| "str_includes (c # cs) p = (startsWith (c # cs) p \<or> str_includes cs p)"

text \<open>
  \<^verbatim>\<open>a.toLowerCase() === b.toLowerCase()\<close>, and PowerShell's \<^verbatim>\<open>$a -eq $b\<close> on strings, for
  ASCII text.
\<close>

definition ieq :: "string \<Rightarrow> string \<Rightarrow> bool" where
  "ieq a b = (toLowerCase a = toLowerCase b)"

text \<open>
  \<^verbatim>\<open>s.trim()\<close>: leading and trailing white space removed. The white space is that of
  ASCII text: space, tab, line feed, vertical tab, form feed and carriage return.
\<close>

definition isWhiteSpace :: "char \<Rightarrow> bool" where
  "isWhiteSpace c = (c \<in> set [CHR '' '', CHR 0x09, CHR 0x0A, CHR 0x0B, CHR 0x0C, CHR 0x0D])"

definition trim :: "string \<Rightarrow> string" where
  "trim s = rev (dropWhile isWhiteSpace (rev (dropWhile isWhiteSpace s)))"

subsection \<open>The machine state\<close>

text \<open>
  A directory tree: a file has a name and its bytes, a directory a name and its
  children. A recursive copy (\<^verbatim>\<open>Copy-Item -Recurse\<close>) yields the same tree.
\<close>

datatype node = File string string | Directory string "node list"

text \<open>The sum of the \<^verbatim>\<open>Length\<close> of every file below a directory.\<close>

fun Length_Sum :: "node \<Rightarrow> nat" where
  "Length_Sum (File n bytes) = length bytes"
| "Length_Sum (Directory n children) = sum_list (map Length_Sum children)"

text \<open>
  A directory below \<^verbatim>\<open>Profiles\<close>, as \<^verbatim>\<open>Get-ChildItem -Directory\<close> shows it: its name,
  its creation time and the tree it holds.
\<close>

record item =
  ItemName :: string
  CreationTime :: int
  Children :: "node list"

record world =
  ProfilesStore :: "item list"
    \<comment> \<open>the directories below \<^verbatim>\<open>$ProfilesStorePath\<close>; order as \<^verbatim>\<open>Get-ChildItem\<close> lists them\<close>
  UserData :: "node list option"
    \<comment> \<open>\<^verbatim>\<open>$UserDataPath\<close>, the live session directory; \<open>None\<close> when it does not exist\<close>
  SwitchingBackup :: "node list option"
    \<comment> \<open>\<^verbatim>\<open>${UserDataPath}_switching_backup\<close>\<close>
  ExeInLocalAppData :: bool
    \<comment> \<open>\<^verbatim>\<open>Test-Path "$env:LOCALAPPDATA\Programs\Antigravity\Antigravity.exe"\<close>\<close>
  ExeInProgramFiles :: bool
    \<comment> \<open>\<^verbatim>\<open>Test-Path "$env:PROGRAMFILES\Antigravity\Antigravity.exe"\<close>\<close>
  Running :: bool
    \<comment> \<open>\<^verbatim>\<open>Get-Process -Name Antigravity\<close> finds a process\<close>
  Launches :: nat
    \<comment> \<open>how often \<^verbatim>\<open>Start-Process explorer.exe\<close> was asked to start the application\<close>
  CleanupJobs :: nat
    \<comment> \<open>background jobs started to delete the backup\<close>
  ACTIVE_PROFILE_FILE :: "string option"
    \<comment> \<open>the contents of \<^verbatim>\<open>active_profile.txt\<close>; \<open>None\<close> when the file does not exist\<close>

subsection \<open>profile\_manager.ps1: names and paths\<close>

text \<open>The character class of \<^verbatim>\<open>$Name -match '[\\/:*?"<>|]'\<close>.\<close>

definition invalid_characters :: "char list" where
  "invalid_characters =
     [CHR 0x5C, CHR ''/'', CHR '':'', CHR ''*'', CHR ''?'', CHR 0x22, CHR ''<'', CHR ''>'',
      CHR ''|'']"

text \<open>
  The characters with which \<^verbatim>\<open>-Path\<close> writes wildcards: \<^verbatim>\<open>*\<close>, \<^verbatim>\<open>?\<close>, the brackets and the
  backtick that escapes them.
\<close>

definition wildcard_characters :: "char list" where
  "wildcard_characters = [CHR ''*'', CHR ''?'', CHR ''['', CHR '']'', CHR 0x60]"

definition printable :: "char \<Rightarrow> bool" where
  "printable c = (32 \<le> (of_char c :: nat) \<and> (of_char c :: nat) < 127)"

definition alphanumeric :: "char \<Rightarrow> bool" where
  "alphanumeric c =
     (c \<in> set ''abcdefghijklmnopqrstuvwxyzABCDEFGHIJKLMNOPQRSTUVWXYZ0123456789'')"

text \<open>
  Windows reads some names as devices wherever they stand, also before an extension
  and before trailing spaces.
\<close>

definition device_names :: "string list" where
  "device_names =
     [''con'', ''prn'', ''aux'', ''nul'', ''conin$'', ''conout$'',
      ''com0'', ''com1'', ''com2'', ''com3'', ''com4'', ''com5'', ''com6'', ''com7'', ''com8'',
      ''com9'', ''lpt0'', ''lpt1'', ''lpt2'', ''lpt3'', ''lpt4'', ''lpt5'', ''lpt6'', ''lpt7'',
      ''lpt8'', ''lpt9'']"

definition device_name :: "string \<Rightarrow> bool" where
  "device_name n =
     (let base = takeWhile (\<lambda>c. c \<noteq> CHR ''.'') (toLowerCase n)
      in rev (dropWhile (\<lambda>c. c = CHR '' '') (rev base)) \<in> set device_names)"

text \<open>
  The names of directories that the model covers: not empty, of printable ASCII
  characters outside the reserved ones, not ending in a dot or a space (Windows drops
  these), and not a device.
\<close>

definition directory_name :: "string \<Rightarrow> bool" where
  "directory_name n =
     (n \<noteq> []
      \<and> list_all (\<lambda>c. printable c \<and> c \<notin> set invalid_characters) n
      \<and> last n \<noteq> CHR ''.'' \<and> last n \<noteq> CHR '' ''
      \<and> \<not> device_name n)"

text \<open>
  A wildcard pattern as \<^verbatim>\<open>-Path\<close> reads it: literal characters, \<^verbatim>\<open>*\<close> for any string,
  \<^verbatim>\<open>?\<close> for any one character, and \<^verbatim>\<open>[abc]\<close> for one of the characters listed. Matching
  ignores case. \<open>parse_glob\<close> reads a name as a pattern; its first argument holds the
  characters of a bracket that is open. It is \<open>None\<close> for what the model does not cover:
  a bracket that is empty, not closed or holds anything but letters and digits, a
  closing bracket or a backtick on its own, and a character that is reserved or not
  printable ASCII.
\<close>

datatype glob = Literal char | AnyString | AnyChar | OneOf "char list"

fun parse_glob :: "char list option \<Rightarrow> string \<Rightarrow> glob list option" where
  "parse_glob None [] = Some []"
| "parse_glob (Some chars) [] = None"
| "parse_glob None (c # cs) =
     (if c = CHR ''*'' then map_option (Cons AnyString) (parse_glob None cs)
      else if c = CHR ''?'' then map_option (Cons AnyChar) (parse_glob None cs)
      else if c = CHR ''['' then parse_glob (Some []) cs
      else if c = CHR '']'' \<or> c = CHR 0x60 then None
      else if printable c \<and> c \<notin> set invalid_characters
        then map_option (Cons (Literal c)) (parse_glob None cs)
      else None)"
| "parse_glob (Some chars) (c # cs) =
     (if c = CHR '']''
        then (if chars = [] then None
              else map_option (Cons (OneOf chars)) (parse_glob None cs))
      else if alphanumeric c then parse_glob (Some (chars @ [c])) cs
      else None)"

fun glob_match :: "glob list \<Rightarrow> string \<Rightarrow> bool" where
  "glob_match [] s = (s = [])"
| "glob_match (AnyString # gs) [] = glob_match gs []"
| "glob_match (AnyString # gs) (x # xs) =
     (glob_match gs (x # xs) \<or> glob_match (AnyString # gs) xs)"
| "glob_match (g # gs) [] = False"
| "glob_match (Literal c # gs) (x # xs) =
     (toLowerCase_char x = toLowerCase_char c \<and> glob_match gs xs)"
| "glob_match (AnyChar # gs) (x # xs) = glob_match gs xs"
| "glob_match (OneOf chars # gs) (x # xs) =
     (toLowerCase_char x \<in> set (map toLowerCase_char chars) \<and> glob_match gs xs)"

text \<open>
  \<^verbatim>\<open>Join-Path $ProfilesStorePath $Name\<close> as \<^verbatim>\<open>-Path\<close> reads it: the pattern that the
  directories below \<^verbatim>\<open>Profiles\<close> are matched against, or \<open>None\<close> where the model does not
  cover the path. Not covered are a name that is empty, ends in a dot or a space, is a
  device, joins a wildcard with a dot, or that \<open>parse_glob\<close> does not cover (so every
  name with a separator or a colon), and a store in which some directory has a name
  that is not a \<open>directory_name\<close>.
\<close>

definition path_pattern :: "item list \<Rightarrow> string \<Rightarrow> glob list option" where
  "path_pattern store n =
     (if n = [] \<or> last n = CHR ''.'' \<or> last n = CHR '' '' \<or> device_name n
         \<or> (list_ex (\<lambda>c. c \<in> set wildcard_characters) n \<and> CHR ''.'' \<in> set n)
         \<or> \<not> list_all (\<lambda>d. directory_name (ItemName d)) store
      then None
      else parse_glob None n)"

text \<open>
  \<^verbatim>\<open>Test-Path\<close>, \<^verbatim>\<open>Remove-Item -Recurse -Force\<close> and the items that \<^verbatim>\<open>Copy-Item\<close> copies, for
  a path below \<^verbatim>\<open>Profiles\<close>: all of them act on every directory that matches.
\<close>

definition Get_Items :: "item list \<Rightarrow> glob list \<Rightarrow> item list" where
  "Get_Items store path = filter (\<lambda>d. glob_match path (ItemName d)) store"

definition Test_Path :: "item list \<Rightarrow> glob list \<Rightarrow> bool" where
  "Test_Path store path = list_ex (\<lambda>d. glob_match path (ItemName d)) store"

definition Remove_Item :: "item list \<Rightarrow> glob list \<Rightarrow> item list" where
  "Remove_Item store path = filter (\<lambda>d. \<not> glob_match path (ItemName d)) store"

subsection \<open>profile\_manager.ps1: the actions\<close>

text \<open>
  Every failure of the script is \<^verbatim>\<open>Write-Error <message>; exit 1\<close>. One constructor per
  message:
  \<^item> \<open>NameRequired\<close>: ``ProfileName is required for ... action'';
  \<^item> \<open>InvalidCharacters\<close>: ``Profile name contains invalid characters''
    (with \<open>NameRequired\<close>, the specification's \<^verbatim>\<open>InvalidName\<close>);
  \<^item> \<open>CapacityExceeded\<close>: ``Maximum profile limit (...) reached. Delete a profile first.'';
  \<^item> \<open>SourceMissing\<close>: ``User Data directory not found at: ...'';
  \<^item> \<open>NotFound\<close>: ``Profile '...' not found'';
  \<^item> \<open>ProcessHostUnavailable\<close>: ``Could not find Antigravity executable''.
\<close>

datatype error =
    NameRequired
  | InvalidCharacters
  | CapacityExceeded
  | SourceMissing
  | NotFound
  | ProcessHostUnavailable

text \<open>The hashtable with the keys \<^verbatim>\<open>Name\<close>, \<^verbatim>\<open>Created\<close> and \<^verbatim>\<open>Size\<close> that \<^verbatim>\<open>Get-Profiles\<close> builds
  per directory. \<open>Created\<close> is the directory's creation time (the script prints it to the
  minute) and \<open>Size\<close> the bytes below it (the script prints megabytes).\<close>

record profile =
  Name :: string
  Created :: int
  Size :: nat

definition Get_Profiles :: "world \<Rightarrow> profile list" where
  "Get_Profiles w =
     map (\<lambda>d. \<lparr>Name = ItemName d, Created = CreationTime d,
                Size = sum_list (map Length_Sum (Children d))\<rparr>)
       (ProfilesStore w)"

text \<open>
  \<^verbatim>\<open>Get-Profiles\<close> ends in \<^verbatim>\<open>return $profiles\<close>, which writes the array's elements to the
  pipeline. \<^verbatim>\<open>List-Profiles\<close> collects them again with \<^verbatim>\<open>@(Get-Profiles)\<close>;
  \<^verbatim>\<open>Save-Profile\<close> assigns \<^verbatim>\<open>$existingProfiles = Get-Profiles\<close> without the \<^verbatim>\<open>@( )\<close>. So
  what \<^verbatim>\<open>Save-Profile\<close> holds is \<^verbatim>\<open>$null\<close> for no profile, the array for two or more, and
  for exactly one profile the hashtable itself, whose \<^verbatim>\<open>.Count\<close> is its number of keys:
  three.
\<close>

fun unwrapped_Count :: "profile list \<Rightarrow> nat" where
  "unwrapped_Count [] = 0"
| "unwrapped_Count [p] = 3"
| "unwrapped_Count ps = length ps"

text \<open>
  How a run of the script ends: with an error and exit code 1, with what it writes
  and exit code 0, or outside the model.
\<close>

datatype written =
    Saved
  | Loaded
  | Deleted
  | Listing "profile list" nat int

datatype ending = Failed error | Succeeded written | NotModelled

type_synonym outcome = "ending \<times> world"

text \<open>
  \<^verbatim>\<open>Copy-Item -Path $UserDataPath -Destination $targetPath -Recurse -Force\<close>.
  \<^verbatim>\<open>-Destination\<close> takes the name as it is written. When no directory of that name
  exists, the copy creates it, as a copy of the live session directory. When one
  exists, the live session directory is copied into it, as its child \<^verbatim>\<open>User\<close>; the model
  does not cover the merge when there is such a child already.
\<close>

fun node_name :: "node \<Rightarrow> string" where
  "node_name (File n bytes) = n"
| "node_name (Directory n children) = n"

definition Copy_Item :: "node list \<Rightarrow> string \<Rightarrow> int \<Rightarrow> item list \<Rightarrow> item list option" where
  "Copy_Item user n now store =
     (if \<not> list_ex (\<lambda>d. ieq (ItemName d) n) store
      then Some (store @ [\<lparr>ItemName = n, CreationTime = now, Children = user\<rparr>])
      else if list_ex (\<lambda>d. ieq (ItemName d) n
                            \<and> list_ex (\<lambda>c. ieq (node_name c) ''User'') (Children d)) store
      then None
      else Some (map (\<lambda>d. if ieq (ItemName d) n
                            then d\<lparr>Children := Children d @ [Directory ''User'' user]\<rparr>
                            else d) store))"

text \<open>
  \<^verbatim>\<open>Save-Profile\<close>: the name's characters, the profile limit (skipped when a profile of
  that name exists), the live session directory; then what \<^verbatim>\<open>$targetPath\<close> matches is
  removed when it matches anything, and the live session directory is copied.
\<close>

definition Save_Profile :: "int \<Rightarrow> int \<Rightarrow> string \<Rightarrow> world \<Rightarrow> outcome" where
  "Save_Profile MaxProfiles now n w =
     (if list_ex (\<lambda>c. c \<in> set invalid_characters) n then (Failed InvalidCharacters, w)
      else
        (case path_pattern (ProfilesStore w) n of
           None \<Rightarrow> (NotModelled, w)
         | Some targetPath \<Rightarrow>
             let existingProfiles = Get_Profiles w;
                 profileExists = filter (\<lambda>p. ieq (Name p) n) existingProfiles
             in
               if profileExists = [] \<and> MaxProfiles \<le> int (unwrapped_Count existingProfiles)
               then (Failed CapacityExceeded, w)
               else
                 (case UserData w of
                    None \<Rightarrow> (Failed SourceMissing, w)
                  | Some user \<Rightarrow>
                      let store = (if Test_Path (ProfilesStore w) targetPath
                                   then Remove_Item (ProfilesStore w) targetPath
                                   else ProfilesStore w)
                      in (case Copy_Item user n now store of
                            None \<Rightarrow> (NotModelled, w)
                          | Some copied \<Rightarrow>
                              (Succeeded Saved, w\<lparr>ProfilesStore := copied\<rparr>)))))"

text \<open>
  \<^verbatim>\<open>Switch-Profile\<close>: the profile path and the executable are looked up; then the
  running processes are stopped (\<open>w1\<close>), an old backup is removed (\<open>w2\<close>), the live
  session directory is renamed to the backup (\<open>w3\<close>), the profile is copied to the live
  session directory (\<open>w4\<close>), a background job is started to delete the backup
  (\<open>w5\<close>), and the application is started through \<^verbatim>\<open>explorer.exe\<close>. The model covers the
  copy when the path matches one directory.
\<close>

definition Switch_Profile :: "string \<Rightarrow> world \<Rightarrow> outcome" where
  "Switch_Profile n w =
     (case path_pattern (ProfilesStore w) n of
        None \<Rightarrow> (NotModelled, w)
      | Some profilePath \<Rightarrow>
          if \<not> Test_Path (ProfilesStore w) profilePath then (Failed NotFound, w)
          else if \<not> ExeInLocalAppData w \<and> \<not> ExeInProgramFiles w
          then (Failed ProcessHostUnavailable, w)
          else
            (case Get_Items (ProfilesStore w) profilePath of
               [profileDir] \<Rightarrow>
                 let w1 = (if Running w then w\<lparr>Running := False\<rparr> else w);
                     w2 = (if SwitchingBackup w1 \<noteq> None
                           then w1\<lparr>SwitchingBackup := None\<rparr> else w1);
                     w3 = (if UserData w2 \<noteq> None
                           then w2\<lparr>SwitchingBackup := UserData w2, UserData := None\<rparr>
                           else w2);
                     w4 = w3\<lparr>UserData := Some (Children profileDir)\<rparr>;
                     w5 = (if SwitchingBackup w4 \<noteq> None
                           then w4\<lparr>CleanupJobs := CleanupJobs w4 + 1\<rparr>
                           else w4)
                 in (Succeeded Loaded, w5\<lparr>Launches := Launches w5 + 1\<rparr>)
             | _ \<Rightarrow> (NotModelled, w)))"

text \<open>\<^verbatim>\<open>Remove-Profile\<close>: every directory that the path matches is removed.\<close>

definition Remove_Profile :: "string \<Rightarrow> world \<Rightarrow> outcome" where
  "Remove_Profile n w =
     (case path_pattern (ProfilesStore w) n of
        None \<Rightarrow> (NotModelled, w)
      | Some profilePath \<Rightarrow>
          if \<not> Test_Path (ProfilesStore w) profilePath then (Failed NotFound, w)
          else (Succeeded Deleted,
                w\<lparr>ProfilesStore := Remove_Item (ProfilesStore w) profilePath\<rparr>))"

definition List_Profiles :: "int \<Rightarrow> world \<Rightarrow> outcome" where
  "List_Profiles MaxProfiles w =
     (let profiles = Get_Profiles w; count = length profiles
      in (Succeeded (Listing profiles count MaxProfiles), w))"

text \<open>
  The script itself: its parameters \<^verbatim>\<open>-Action\<close>, \<^verbatim>\<open>-ProfileName\<close> (empty when not given)
  and \<^verbatim>\<open>-MaxProfiles\<close>, and the \<^verbatim>\<open>switch ($Action)\<close> at its end. \<open>now\<close> is the time of the
  run. The script first creates \<^verbatim>\<open>$ProfilesStorePath\<close> when it is missing, which leaves
  the list of profiles (empty then) as it is.
\<close>

datatype action = Save | Load | List | Delete

fun profile_manager :: "action \<Rightarrow> string \<Rightarrow> int \<Rightarrow> int \<Rightarrow> world \<Rightarrow> outcome" where
  "profile_manager Save ProfileName MaxProfiles now w =
     (if ProfileName = [] then (Failed NameRequired, w)
      else Save_Profile MaxProfiles now ProfileName w)"
| "profile_manager Load ProfileName MaxProfiles now w =
     (if ProfileName = [] then (Failed NameRequired, w)
      else Switch_Profile ProfileName w)"
| "profile_manager List ProfileName MaxProfiles now w = List_Profiles MaxProfiles w"
| "profile_manager Delete ProfileName MaxProfiles now w =
     (if ProfileName = [] then (Failed NameRequired, w)
      else Remove_Profile ProfileName w)"

subsection \<open>extension.js: the script, the pointer, the pattern matcher\<close>

text \<open>
  User-visible messages, one constructor per \<^verbatim>\<open>show...Message\<close> call of the extension,
  with the values that the message prints. After a run of the script that is
  \<open>NotModelled\<close> the model shows no message.
\<close>

datatype message =
    RateLimit_SaveSomeProfiles
  | RateLimit_SwitchPrompt "string list"
  | AlreadyActive string
  | SlotEmpty nat
  | SlotsFull
  | ProfileSaved string
  | FailedToSave error
  | NoProfilesToDelete
  | ProfileDeleted string
  | FailedToDelete error
  | NoProfilesYet
  | FailedToSwitch error
  | SavedProfiles "string list"
  | MarkedActive string

text \<open>
  The variables of \<^verbatim>\<open>activate\<close> that outlive a handler: \<^verbatim>\<open>lastRateLimitAlert\<close> and
  \<^verbatim>\<open>lastLogSize\<close> (both \<^verbatim>\<open>0\<close> at activation), and the messages shown so far. Times are
  \<^verbatim>\<open>Date.now()\<close>, milliseconds since the epoch.
\<close>

record extension =
  lastRateLimitAlert :: int
  lastLogSize :: nat
  Shown :: "message list"

definition activated :: extension where
  "activated = \<lparr>lastRateLimitAlert = 0, lastLogSize = 0, Shown = []\<rparr>"

type_synonym state = "extension \<times> world"

definition showMessage :: "message \<Rightarrow> extension \<Rightarrow> extension" where
  "showMessage m e = e\<lparr>Shown := Shown e @ [m]\<rparr>"

definition NUM_SLOTS :: nat where
  "NUM_SLOTS = 5"

text \<open>
  Reading and writing \<^verbatim>\<open>active_profile.txt\<close> succeed in the model (the \<^verbatim>\<open>catch\<close> branches
  of these two functions log the error and return \<^verbatim>\<open>null\<close> and \<^verbatim>\<open>false\<close>).
\<close>

definition getActiveProfile :: "world \<Rightarrow> string option" where
  "getActiveProfile w =
     (case ACTIVE_PROFILE_FILE w of None \<Rightarrow> None | Some s \<Rightarrow> Some (trim s))"

definition setActiveProfile :: "string \<Rightarrow> world \<Rightarrow> world" where
  "setActiveProfile profileName w = w\<lparr>ACTIVE_PROFILE_FILE := Some profileName\<rparr>"

definition RATE_LIMIT_PATTERNS :: "string list" where
  "RATE_LIMIT_PATTERNS =
     [''rate limit'', ''quota exceeded'', ''too many requests'', ''limit reached'',
      ''resource exhausted'', ''429'', ''RESOURCE_EXHAUSTED'',
      ''overloaded'', ''capacity'', ''rate_limit_error'', ''overloaded_error'',
      ''api_error'', ''Request limit'', ''usage limit'',
      ''model is currently overloaded'', ''temporarily unavailable'']"

definition RATE_LIMIT_COOLDOWN :: int where
  "RATE_LIMIT_COOLDOWN = 60000"

text \<open>
  \<^verbatim>\<open>runProfileManager\<close> runs the script with \<^verbatim>\<open>-Action\<close> and, for a non-empty name,
  \<^verbatim>\<open>-ProfileName "<name>"\<close>; it never passes \<^verbatim>\<open>-MaxProfiles\<close>, so the script's default of
  5 holds. Its \<^verbatim>\<open>success\<close> is that the script did not exit with an error. The name
  reaches the script through a command line; the model covers the run when that
  leaves the name as it is: no double quote and no percent sign in it, no hyphen at
  its start (PowerShell would read a parameter) and no backslash at its end.
\<close>

definition command_line_keeps :: "string \<Rightarrow> bool" where
  "command_line_keeps profileName =
     (\<not> list_ex (\<lambda>c. c = CHR 0x22 \<or> c = CHR ''%'') profileName
      \<and> (profileName = []
           \<or> (hd profileName \<noteq> CHR ''-'' \<and> last profileName \<noteq> CHR 0x5C)))"

definition runProfileManager :: "action \<Rightarrow> string \<Rightarrow> int \<Rightarrow> world \<Rightarrow> outcome" where
  "runProfileManager act profileName now w =
     (if command_line_keeps profileName then profile_manager act profileName 5 now w
      else (NotModelled, w))"

text \<open>
  \<^verbatim>\<open>getProfiles\<close> takes from the \<^verbatim>\<open>List\<close> output the first stretch that the expression
  \<^verbatim>\<open>/\\[[\\s\\S]*?\\]/\<close> matches, from the first opening bracket to the next closing one, and
  parses it as JSON. When no profile name holds a bracket this is the \<^verbatim>\<open>Profiles\<close>
  array. When one does, the stretch is cut short or starts in the lines printed before
  the JSON, and the model takes the result to be the empty list, as it is when the
  stretch does not parse (should the stretch itself be a JSON array, the code returns
  that array). The JSON text is not modelled beyond this.
\<close>

definition getProfiles :: "int \<Rightarrow> world \<Rightarrow> profile list" where
  "getProfiles now w =
     (case fst (runProfileManager List [] now w) of
        Succeeded (Listing profiles count maxProfiles) \<Rightarrow>
          if list_ex (\<lambda>p. list_ex (\<lambda>c. c = CHR ''['' \<or> c = CHR '']'') (Name p)) profiles
          then []
          else profiles
      | _ \<Rightarrow> [])"

definition containsRateLimitError :: "string \<Rightarrow> bool" where
  "containsRateLimitError text =
     (let lowerText = toLowerCase text
      in list_ex (\<lambda>pattern. str_includes lowerText (toLowerCase pattern)) RATE_LIMIT_PATTERNS)"

text \<open>
  What the user picks in a quick pick or among a message's buttons: nothing, or the
  entry at an index of the list shown.
\<close>

definition picked :: "'a list \<Rightarrow> nat option \<Rightarrow> 'a option" where
  "picked shown pick =
     (case pick of
        None \<Rightarrow> None
      | Some i \<Rightarrow> if i < length shown then Some (shown ! i) else None)"

subsection \<open>extension.js: rate-limit handling\<close>

text \<open>
  \<^verbatim>\<open>handleRateLimitDetected\<close>. \<open>pick\<close> is the button pressed on the prompt, whose buttons
  are the profile names followed by \<^verbatim>\<open>Dismiss\<close>.
\<close>

definition handleRateLimitDetected :: "nat option \<Rightarrow> int \<Rightarrow> state \<Rightarrow> state" where
  "handleRateLimitDetected pick now s =
     (let (e, w) = s in
      if now - lastRateLimitAlert e < RATE_LIMIT_COOLDOWN then (e, w)
      else
        let e1 = e\<lparr>lastRateLimitAlert := now\<rparr>;
            profiles = getProfiles now w
        in
          if length profiles = 0 then (showMessage RateLimit_SaveSomeProfiles e1, w)
          else
            let buttons = map Name profiles @ [''Dismiss''];
                e2 = showMessage (RateLimit_SwitchPrompt (map Name profiles)) e1
            in
              (case picked buttons pick of
                 None \<Rightarrow> (e2, w)
               | Some selected \<Rightarrow>
                   if selected \<noteq> [] \<and> selected \<noteq> ''Dismiss''
                   then (e2, snd (runProfileManager Load selected now w))
                   else (e2, w)))"

text \<open>The diagnostics listener: the messages of the changed documents, in order.\<close>

definition diagnosticListener :: "string list \<Rightarrow> nat option \<Rightarrow> int \<Rightarrow> state \<Rightarrow> state" where
  "diagnosticListener diagnostics pick now s =
     (if list_ex containsRateLimitError diagnostics then handleRateLimitDetected pick now s
      else s)"

text \<open>
  The log poll. \<open>logsDir\<close> is \<^verbatim>\<open>%APPDATA%\Antigravity\logs\<close> at the time of the poll:
  \<open>None\<close> when it does not exist, else its subdirectories by name, each with the bytes of
  its \<^verbatim>\<open>main.log\<close> (\<open>None\<close> when it has none). \<open>fsThrows\<close> says that a file-system call of
  this cycle throws (the \<^verbatim>\<open>catch\<close> ignores it); every such call comes before the
  assignment to \<^verbatim>\<open>lastLogSize\<close>.
\<close>

record logs =
  logsDir :: "(string \<times> string option) list option"
  fsThrows :: bool

text \<open>\<^verbatim>\<open>main.log\<close> of the first directory of \<^verbatim>\<open>readdirSync(...).sort().reverse()\<close>.\<close>

definition mainLog :: "logs \<Rightarrow> string option" where
  "mainLog fs =
     (case logsDir fs of
        None \<Rightarrow> None
      | Some entries \<Rightarrow>
          let logDirs = rev (sort (map fst entries))
          in if length logDirs = 0 then None
             else (case map_of entries (hd logDirs) of None \<Rightarrow> None | Some file \<Rightarrow> file))"

text \<open>
  The part of the poll inside \<^verbatim>\<open>try\<close>, up to \<^verbatim>\<open>newContent\<close>: \<open>None\<close> when the cycle returns
  early, else \<^verbatim>\<open>stats.size\<close> and the bytes read into the buffer.
\<close>

definition readNewContent :: "logs \<Rightarrow> nat \<Rightarrow> (nat \<times> string) option" where
  "readNewContent fs lastSize =
     (if fsThrows fs then None
      else
        (case mainLog fs of
           None \<Rightarrow> None
         | Some file \<Rightarrow>
             let statsSize = length file
             in if statsSize \<le> lastSize then None
                else
                  let buffer = take (min (statsSize - lastSize) 10000) (drop lastSize file)
                  in Some (statsSize, buffer)))"

definition logCheckInterval :: "logs \<Rightarrow> nat option \<Rightarrow> int \<Rightarrow> state \<Rightarrow> state" where
  "logCheckInterval fs pick now s =
     (let (e, w) = s in
      case readNewContent fs (lastLogSize e) of
        None \<Rightarrow> (e, w)
      | Some (statsSize, newContent) \<Rightarrow>
          let e1 = e\<lparr>lastLogSize := statsSize\<rparr>
          in if containsRateLimitError newContent
             then handleRateLimitDetected pick now (e1, w)
             else (e1, w))"

subsection \<open>extension.js: commands\<close>

text \<open>A slot button: \<^verbatim>\<open>antigravity-switcher.slotAction<i>\<close>.\<close>

definition slotAction :: "nat \<Rightarrow> int \<Rightarrow> state \<Rightarrow> state" where
  "slotAction slotNum now s =
     (let (e, w) = s; profiles = getProfiles now w in
      if slotNum < length profiles then
        let profileName = Name (profiles ! slotNum);
            activeProfileName = getActiveProfile w
        in
          if (case activeProfileName of
                None \<Rightarrow> False
              | Some a \<Rightarrow> a \<noteq> [] \<and> toLowerCase a = toLowerCase profileName)
          then (showMessage (AlreadyActive profileName) e, w)
          else
            let w1 = setActiveProfile profileName w;
                (result, w2) = runProfileManager Load profileName now w1
            in (case result of
                  Failed err \<Rightarrow> (showMessage (FailedToSwitch err) e, w2)
                | _ \<Rightarrow> (e, w2))
      else (showMessage (SlotEmpty (slotNum + 1)) e, w))"

text \<open>
  \<^verbatim>\<open>saveProfile\<close>. \<open>typed\<close> is what the user enters in the input box (\<open>None\<close>: the box is
  dismissed); the box accepts a value only when \<^verbatim>\<open>validateInput\<close> returns \<^verbatim>\<open>null\<close>.
\<close>

definition validateInput :: "profile list \<Rightarrow> string \<Rightarrow> string option" where
  "validateInput profiles v =
     (if v = [] \<or> length (trim v) = 0 then Some ''Profile name cannot be empty''
      else if list_ex (\<lambda>p. toLowerCase (Name p) = toLowerCase v) profiles
      then Some ''A profile with this name already exists''
      else None)"

definition saveProfile :: "string option \<Rightarrow> int \<Rightarrow> state \<Rightarrow> state" where
  "saveProfile typed now s =
     (let (e, w) = s; profiles = getProfiles now w in
      if NUM_SLOTS \<le> length profiles then (showMessage SlotsFull e, w)
      else
        (case typed of
           None \<Rightarrow> (e, w)
         | Some profileName \<Rightarrow>
             if validateInput profiles profileName \<noteq> None \<or> profileName = [] then (e, w)
             else
               let (result, w1) = runProfileManager Save profileName now w
               in (case result of
                     Succeeded r \<Rightarrow>
                       (showMessage (ProfileSaved profileName) e,
                        setActiveProfile profileName w1)
                   | Failed err \<Rightarrow> (showMessage (FailedToSave err) e, w1)
                   | NotModelled \<Rightarrow> (e, w1))))"

text \<open>\<^verbatim>\<open>deleteProfile\<close>: the quick pick, then the modal confirmation.\<close>

definition deleteProfile :: "nat option \<Rightarrow> bool \<Rightarrow> int \<Rightarrow> state \<Rightarrow> state" where
  "deleteProfile pick confirmDelete now s =
     (let (e, w) = s; profiles = getProfiles now w in
      if length profiles = 0 then (showMessage NoProfilesToDelete e, w)
      else
        (case picked (map Name profiles) pick of
           None \<Rightarrow> (e, w)
         | Some profileName \<Rightarrow>
             if \<not> confirmDelete then (e, w)
             else
               let (result, w1) = runProfileManager Delete profileName now w
               in (case result of
                     Succeeded r \<Rightarrow> (showMessage (ProfileDeleted profileName) e, w1)
                   | Failed err \<Rightarrow> (showMessage (FailedToDelete err) e, w1)
                   | NotModelled \<Rightarrow> (e, w1))))"

text \<open>\<^verbatim>\<open>switchProfile\<close>, the command-palette switch.\<close>

definition switchProfile :: "nat option \<Rightarrow> int \<Rightarrow> state \<Rightarrow> state" where
  "switchProfile pick now s =
     (let (e, w) = s; profiles = getProfiles now w in
      if length profiles = 0 then (showMessage NoProfilesYet e, w)
      else
        (case picked (map Name profiles) pick of
           None \<Rightarrow> (e, w)
         | Some profileName \<Rightarrow>
             let (result, w1) = runProfileManager Load profileName now w
             in (case result of
                   Failed err \<Rightarrow> (showMessage (FailedToSwitch err) e, w1)
                 | _ \<Rightarrow> (e, w1))))"

definition listProfiles :: "int \<Rightarrow> state \<Rightarrow> state" where
  "listProfiles now s =
     (let (e, w) = s; profiles = getProfiles now w in
      if length profiles = 0 then (showMessage NoProfilesYet e, w)
      else (showMessage (SavedProfiles (map Name profiles)) e, w))"

text \<open>\<^verbatim>\<open>setActiveProfile\<close>, the command that marks a profile active without switching.\<close>

definition setActiveProfileCommand :: "nat option \<Rightarrow> int \<Rightarrow> state \<Rightarrow> state" where
  "setActiveProfileCommand pick now s =
     (let (e, w) = s; profiles = getProfiles now w in
      if length profiles = 0 then (showMessage NoProfilesYet e, w)
      else
        (case picked (map Name profiles) pick of
           None \<Rightarrow> (e, w)
         | Some profileName \<Rightarrow>
             (showMessage (MarkedActive profileName) e, setActiveProfile profileName w)))"

subsection \<open>extension.js: the events of a session\<close>

text \<open>
  What can happen while the extension is active: a diagnostics change, a tick of the
  log poll, or one of the commands, each with what the user does in it. \<open>run\<close> handles
  a list of events, each at its time.
\<close>

datatype event =
    DiagnosticsChanged "string list" "nat option"
  | LogPoll logs "nat option"
  | SlotButton nat
  | SaveCommand "string option"
  | DeleteCommand "nat option" bool
  | SwitchCommand "nat option"
  | ListCommand
  | SetActiveCommand "nat option"

fun handle :: "int \<Rightarrow> event \<Rightarrow> state \<Rightarrow> state" where
  "handle now (DiagnosticsChanged diagnostics pick) s = diagnosticListener diagnostics pick now s"
| "handle now (LogPoll fs pick) s = logCheckInterval fs pick now s"
| "handle now (SlotButton slotNum) s = slotAction slotNum now s"
| "handle now (SaveCommand typed) s = saveProfile typed now s"
| "handle now (DeleteCommand pick confirmDelete) s = deleteProfile pick confirmDelete now s"
| "handle now (SwitchCommand pick) s = switchProfile pick now s"
| "handle now ListCommand s = listProfiles now s"
| "handle now (SetActiveCommand pick) s = setActiveProfileCommand pick now s"

fun run :: "(int \<times> event) list \<Rightarrow> state \<Rightarrow> state" where
  "run [] s = s"
| "run ((now, ev) # evs) s = run evs (handle now ev s)"

subsection \<open>The specification's words, and example data\<close>

text \<open>
  The specification's pattern matcher, in its own words: \<open>Matches text\<close> holds when some
  keyword of the fixed list occurs in \<open>text\<close> ignoring case, that is, when \<open>text\<close> has a
  stretch of characters that equals the keyword once both are lower-cased.
\<close>

definition occurs_ignoring_case :: "string \<Rightarrow> string \<Rightarrow> bool" where
  "occurs_ignoring_case keyword text =
     (\<exists>before occurrence after.
        text = before @ occurrence @ after \<and> toLowerCase occurrence = toLowerCase keyword)"

definition Matches :: "string \<Rightarrow> bool" where
  "Matches text = (\<exists>keyword \<in> set RATE_LIMIT_PATTERNS. occurs_ignoring_case keyword text)"

text \<open>
  A well-formed store: every directory has a name that the model covers, and no two
  names are equal up to case, as Windows guarantees.
\<close>

definition well_formed :: "item list \<Rightarrow> bool" where
  "well_formed store =
     (distinct (map (\<lambda>d. toLowerCase (ItemName d)) store)
      \<and> list_all (\<lambda>d. directory_name (ItemName d)) store)"

text \<open>
  A plain name: the name of a directory with no wildcard character in it. The path of
  a plain name matches the directories of that name, up to case, and nothing else.
\<close>

definition plain_name :: "string \<Rightarrow> bool" where
  "plain_name n = (directory_name n \<and> \<not> list_ex (\<lambda>c. c \<in> set wildcard_characters) n)"

text \<open>
  A machine for the examples: Antigravity is installed and running, the live session
  directory exists, and \<open>names\<close> are the saved profiles, each holding one file that
  records whose session it is.
\<close>

definition snapshot :: "string \<Rightarrow> item" where
  "snapshot n = \<lparr>ItemName = n, CreationTime = 0, Children = [File ''state.vscdb'' n]\<rparr>"

definition machine :: "string list \<Rightarrow> world" where
  "machine names =
     \<lparr>ProfilesStore = map snapshot names,
      UserData = Some [File ''state.vscdb'' ''live''],
      SwitchingBackup = None,
      ExeInLocalAppData = True,
      ExeInProgramFiles = False,
      Running = True,
      Launches = 0,
      CleanupJobs = 0,
      ACTIVE_PROFILE_FILE = None\<rparr>"

text \<open>A logs directory with one session directory, whose \<^verbatim>\<open>main.log\<close> holds \<open>bytes\<close>.\<close>

definition log_of :: "string \<Rightarrow> logs" where
  "log_of bytes = \<lparr>logsDir = Some [(''20240501T101500'', Some bytes)], fsThrows = False\<rparr>"

section \<open>Properties\<close>

subsection \<open>Strings, names and the store\<close>

lemma startsWith_prefix: "startsWith s p \<longleftrightarrow> prefix p s"
  by (induction s p rule: startsWith.induct) auto

lemma str_includes_sublist: "str_includes s p \<longleftrightarrow> sublist p s"
  by (induction s) (simp_all add: startsWith_prefix sublist_Cons_right)

lemma sublist_toLowerCase:
  "sublist (toLowerCase keyword) (toLowerCase text) \<longleftrightarrow> occurs_ignoring_case keyword text"
proof
  assume "sublist (toLowerCase keyword) (toLowerCase text)"
  then obtain ps ss where eq: "map toLowerCase_char text = ps @ map toLowerCase_char keyword @ ss"
    by (auto simp: sublist_def toLowerCase_def)
  from eq obtain before rest where 1: "text = before @ rest"
    and 2: "map toLowerCase_char keyword @ ss = map toLowerCase_char rest"
    unfolding map_eq_append_conv by blast
  from 2 obtain occurrence after where 3: "rest = occurrence @ after"
    and 4: "map toLowerCase_char keyword = map toLowerCase_char occurrence"
    unfolding append_eq_map_conv by blast
  from 1 3 4 show "occurs_ignoring_case keyword text"
    unfolding occurs_ignoring_case_def toLowerCase_def by metis
next
  assume "occurs_ignoring_case keyword text"
  then obtain before occurrence after where t: "text = before @ occurrence @ after"
    and e: "toLowerCase occurrence = toLowerCase keyword"
    unfolding occurs_ignoring_case_def by blast
  have "toLowerCase text = toLowerCase before @ toLowerCase occurrence @ toLowerCase after"
    unfolding t toLowerCase_def by simp
  then show "sublist (toLowerCase keyword) (toLowerCase text)"
    unfolding e sublist_def by blast
qed

lemma containsRateLimitError_iff:
  "containsRateLimitError text \<longleftrightarrow>
     (\<exists>pattern \<in> set RATE_LIMIT_PATTERNS. sublist (toLowerCase pattern) (toLowerCase text))"
  by (simp add: containsRateLimitError_def list_ex_iff str_includes_sublist)

lemma toLowerCase_429: "toLowerCase ''429'' = ''429''"
  by (simp add: toLowerCase_def toLowerCase_char_def)

lemma containsRateLimitError_around_429:
  "containsRateLimitError (before @ ''429'' @ after)"
proof -
  have p: "''429'' \<in> set RATE_LIMIT_PATTERNS"
    by (simp add: RATE_LIMIT_PATTERNS_def)
  have "toLowerCase (before @ ''429'' @ after)
        = toLowerCase before @ ''429'' @ toLowerCase after"
    using toLowerCase_429 by (simp add: toLowerCase_def)
  then have "sublist (toLowerCase ''429'') (toLowerCase (before @ ''429'' @ after))"
    unfolding toLowerCase_429 sublist_def by blast
  with p show ?thesis
    unfolding containsRateLimitError_iff by blast
qed

lemma toLowerCase_eq_Nil: "toLowerCase a = toLowerCase b \<Longrightarrow> a = [] \<longleftrightarrow> b = []"
  by (metis toLowerCase_def map_is_Nil_conv)

lemma invalid_toLowerCase_char:
  "(toLowerCase_char c \<in> set invalid_characters) = (c \<in> set invalid_characters)"
  by (auto simp: toLowerCase_char_def invalid_characters_def split: option.splits if_splits)

lemma invalid_toLowerCase:
  "list_ex (\<lambda>c. c \<in> set invalid_characters) (toLowerCase n) =
     list_ex (\<lambda>c. c \<in> set invalid_characters) n"
  by (induction n) (simp_all add: toLowerCase_def invalid_toLowerCase_char)

lemma printable_toLowerCase_char: "printable (toLowerCase_char c) = printable c"
  by (auto simp: toLowerCase_char_def printable_def split: option.splits if_splits)

lemma toLowerCase_char_dot: "(toLowerCase_char c = CHR ''.'') = (c = CHR ''.'')"
  by (auto simp: toLowerCase_char_def split: option.splits if_splits)

lemma toLowerCase_char_space: "(toLowerCase_char c = CHR '' '') = (c = CHR '' '')"
  by (auto simp: toLowerCase_char_def split: option.splits if_splits)

lemma last_toLowerCase: "n \<noteq> [] \<Longrightarrow> last (toLowerCase n) = toLowerCase_char (last n)"
  by (simp add: toLowerCase_def last_map)

lemma list_all_toLowerCase:
  "list_all (\<lambda>c. printable c \<and> c \<notin> set invalid_characters) (toLowerCase n) =
     list_all (\<lambda>c. printable c \<and> c \<notin> set invalid_characters) n"
  by (simp add: toLowerCase_def list_all_iff printable_toLowerCase_char invalid_toLowerCase_char)

text \<open>A name that equals the name of a directory up to case is the name of a directory.\<close>

lemma directory_name_ieq:
  assumes a: "directory_name a" and eq: "ieq a b"
  shows "directory_name b"
proof -
  from eq have low: "toLowerCase a = toLowerCase b"
    by (simp add: ieq_def)
  from a have "a \<noteq> []"
    by (simp add: directory_name_def)
  with low have b: "b \<noteq> []"
    using toLowerCase_eq_Nil by blast
  have "list_all (\<lambda>c. printable c \<and> c \<notin> set invalid_characters) (toLowerCase a)"
    using a by (simp add: directory_name_def list_all_toLowerCase)
  then have chars: "list_all (\<lambda>c. printable c \<and> c \<notin> set invalid_characters) b"
    by (simp add: low list_all_toLowerCase)
  have "toLowerCase_char (last a) = toLowerCase_char (last b)"
    using low \<open>a \<noteq> []\<close> b by (metis last_toLowerCase)
  moreover have "last a \<noteq> CHR ''.''" "last a \<noteq> CHR '' ''"
    using a by (simp_all add: directory_name_def)
  ultimately have ends: "last b \<noteq> CHR ''.''" "last b \<noteq> CHR '' ''"
    by (metis toLowerCase_char_dot, metis toLowerCase_char_space)
  have "device_name b = device_name a"
    by (simp add: device_name_def low)
  with a have "\<not> device_name b"
    by (simp add: directory_name_def)
  with b chars ends show ?thesis
    by (simp add: directory_name_def)
qed

text \<open>
  The path of a plain name is the pattern of its characters, and that pattern matches
  exactly the names that equal it up to case.
\<close>

lemma glob_match_Literal: "glob_match (map Literal n) s = ieq s n"
proof (induction n arbitrary: s)
  case Nil
  then show ?case by (simp add: ieq_def toLowerCase_def)
next
  case (Cons c n)
  then show ?case by (cases s) (auto simp: ieq_def toLowerCase_def)
qed

lemma parse_glob_plain:
  "list_all (\<lambda>c. printable c \<and> c \<notin> set invalid_characters) n \<Longrightarrow>
   \<not> list_ex (\<lambda>c. c \<in> set wildcard_characters) n \<Longrightarrow>
     parse_glob None n = Some (map Literal n)"
  by (induction n) (simp_all add: wildcard_characters_def)

lemma path_pattern_plain:
  assumes "plain_name n" and "list_all (\<lambda>d. directory_name (ItemName d)) store"
  shows "path_pattern store n = Some (map Literal n)"
  using assms
  by (simp add: plain_name_def directory_name_def path_pattern_def parse_glob_plain)

lemma plain_name_valid:
  "plain_name n \<Longrightarrow> n \<noteq> [] \<and> \<not> list_ex (\<lambda>c. c \<in> set invalid_characters) n"
  by (auto simp: plain_name_def directory_name_def list_all_iff list_ex_iff)

lemma Test_Path_plain:
  "Test_Path store (map Literal n) = (\<exists>d \<in> set store. ieq (ItemName d) n)"
  by (simp add: Test_Path_def list_ex_iff glob_match_Literal)

lemma Remove_Item_plain:
  "Remove_Item store (map Literal n) = filter (\<lambda>d. \<not> ieq (ItemName d) n) store"
  by (simp add: Remove_Item_def glob_match_Literal)

lemma Copy_Item_new:
  "\<forall>d \<in> set store. \<not> ieq (ItemName d) n \<Longrightarrow>
     Copy_Item user n now store
       = Some (store @ [\<lparr>ItemName = n, CreationTime = now, Children = user\<rparr>])"
  by (simp add: Copy_Item_def list_ex_iff)

lemma length_Get_Profiles: "length (Get_Profiles w) = length (ProfilesStore w)"
  by (simp add: Get_Profiles_def)

lemma le_unwrapped_Count: "length ps \<le> unwrapped_Count ps"
  by (induction ps rule: unwrapped_Count.induct) simp_all

lemma no_match_Get_Profiles:
  "(filter (\<lambda>p. ieq (Name p) n) (Get_Profiles w) = []) =
     (\<forall>d \<in> set (ProfilesStore w). \<not> ieq (ItemName d) n)"
  by (auto simp: Get_Profiles_def filter_empty_conv)

lemma filter_distinct_key:
  "distinct (map f xs) \<Longrightarrow> x \<in> set xs \<Longrightarrow> filter (\<lambda>y. f y = f x) xs = [x]"
proof (induction xs)
  case Nil
  then show ?case by simp
next
  case (Cons a xs)
  show ?case
  proof (cases "a = x")
    case True
    with Cons.prems have "\<forall>y \<in> set xs. f y \<noteq> f x"
      by (metis distinct.simps(2) image_eqI list.simps(9) list.set_map)
    then have "filter (\<lambda>y. f y = f x) xs = []" by (simp add: filter_empty_conv)
    with True show ?thesis by simp
  next
    case False
    with Cons.prems have "x \<in> set xs" "f a \<noteq> f x" by auto
    with Cons show ?thesis by simp
  qed
qed

lemma well_formed_Nil: "well_formed []"
  by (simp add: well_formed_def)

text \<open>
  \<^verbatim>\<open>Switch-Profile\<close> never touches \<^verbatim>\<open>active_profile.txt\<close>: it removes and renames
  fixed paths, and the one path that depends on the name is read, not written. So the
  pointer is as it was after every \<^verbatim>\<open>Load\<close>, also after a run that the model does not cover.
\<close>

lemma pointer_Switch_Profile:
  "ACTIVE_PROFILE_FILE (snd (Switch_Profile n w)) = ACTIVE_PROFILE_FILE w"
  by (simp add: Switch_Profile_def Let_def split: option.splits list.splits)

lemma pointer_Load:
  "ACTIVE_PROFILE_FILE (snd (runProfileManager Load n now w)) = ACTIVE_PROFILE_FILE w"
  by (simp add: runProfileManager_def pointer_Switch_Profile)

lemma getProfiles_eq:
  "\<not> list_ex (\<lambda>d. list_ex (\<lambda>c. c = CHR ''['' \<or> c = CHR '']'') (ItemName d)) (ProfilesStore w)
     \<Longrightarrow> getProfiles now w = Get_Profiles w"
  by (simp add: getProfiles_def runProfileManager_def command_line_keeps_def List_Profiles_def
      Let_def Get_Profiles_def list_ex_iff)

subsection \<open>The script on plain names\<close>

text \<open>
  On a store of directories that the model covers, and for a plain name, the script
  does what the specification says of \<^verbatim>\<open>Save\<close>, \<^verbatim>\<open>Switch\<close> and \<^verbatim>\<open>Delete\<close>, apart from the
  count that \<^verbatim>\<open>Save-Profile\<close> reads when one profile is saved. The four lemmas of this
  section say so; the theorems of the next two sections show where the script leaves
  the specification.

  \<^verbatim>\<open>Save\<close> of a plain name that matches no profile fails with \<open>CapacityExceeded\<close> and
  changes nothing when the number of profiles is at least \<^verbatim>\<open>MaxProfiles\<close>.
\<close>

lemma Save_plain_name_at_capacity:
  assumes n: "plain_name n"
    and store: "list_all (\<lambda>d. directory_name (ItemName d)) (ProfilesStore w)"
    and new: "\<forall>d \<in> set (ProfilesStore w). \<not> ieq (ItemName d) n"
    and full: "MaxProfiles \<le> int (length (ProfilesStore w))"
  shows "profile_manager Save n MaxProfiles now w = (Failed CapacityExceeded, w)"
proof -
  have "MaxProfiles \<le> int (unwrapped_Count (Get_Profiles w))"
    using full le_unwrapped_Count [of "Get_Profiles w"]
    by (simp add: length_Get_Profiles)
  then show ?thesis
    using plain_name_valid [OF n] path_pattern_plain [OF n store] new
    by (simp add: Save_Profile_def Let_def no_match_Get_Profiles)
qed

text \<open>
  In a well-formed store, \<^verbatim>\<open>Save\<close> of a name without wildcard characters that equals
  an existing profile's name up to case succeeds whatever \<^verbatim>\<open>MaxProfiles\<close> is, when the
  live session directory exists. Afterwards the store has as many profiles as before;
  exactly one of them matches the name, and it carries the name as given, the time of
  the save as its creation time and a copy of the live session directory; the other
  profiles are as they were, and nothing else on the machine has changed. When the
  live session directory does not exist, the run fails with \<open>SourceMissing\<close> and
  changes nothing.
\<close>

lemma Save_plain_name_overwrites:
  assumes wf: "well_formed (ProfilesStore w)"
    and d: "d \<in> set (ProfilesStore w)" and m: "ieq (ItemName d) n"
    and n: "\<not> list_ex (\<lambda>c. c \<in> set wildcard_characters) n"
  shows "(UserData w = Some user \<longrightarrow>
           (\<exists>store'.
              profile_manager Save n MaxProfiles now w
                = (Succeeded Saved, w\<lparr>ProfilesStore := store'\<rparr>)
              \<and> length (Get_Profiles (w\<lparr>ProfilesStore := store'\<rparr>)) = length (Get_Profiles w)
              \<and> filter (\<lambda>x. ieq (ItemName x) n) store'
                  = [\<lparr>ItemName = n, CreationTime = now, Children = user\<rparr>]
              \<and> filter (\<lambda>x. \<not> ieq (ItemName x) n) store'
                  = filter (\<lambda>x. \<not> ieq (ItemName x) n) (ProfilesStore w)))
         \<and> (UserData w = None \<longrightarrow>
              profile_manager Save n MaxProfiles now w = (Failed SourceMissing, w))"
proof -
  let ?store = "ProfilesStore w"
  let ?new = "\<lparr>ItemName = n, CreationTime = now, Children = user\<rparr>"
  let ?rest = "filter (\<lambda>x. \<not> ieq (ItemName x) n) ?store"
  let ?store' = "?rest @ [?new]"
  from wf have names: "list_all (\<lambda>d. directory_name (ItemName d)) ?store"
    by (simp add: well_formed_def)
  with d have "directory_name (ItemName d)"
    by (simp add: list_all_iff)
  then have "directory_name n"
    using m by (rule directory_name_ieq)
  with n have plain: "plain_name n"
    by (simp add: plain_name_def)
  note valid = plain_name_valid [OF plain]
  note path = path_pattern_plain [OF plain names]
  have exists: "\<exists>d \<in> set ?store. ieq (ItemName d) n"
    using d m by blast
  have found: "filter (\<lambda>p. ieq (Name p) n) (Get_Profiles w) \<noteq> []"
    using d m by (auto simp: no_match_Get_Profiles)
  have copy: "Copy_Item user n now ?rest = Some ?store'"
    by (rule Copy_Item_new) simp
  have saved: "profile_manager Save n MaxProfiles now w
               = (Succeeded Saved, w\<lparr>ProfilesStore := ?store'\<rparr>)"
    if "UserData w = Some user"
    using valid path exists found that copy
    by (simp add: Save_Profile_def Let_def Test_Path_plain Remove_Item_plain)
  have missing: "profile_manager Save n MaxProfiles now w = (Failed SourceMissing, w)"
    if "UserData w = None"
    using valid path found that
    by (simp add: Save_Profile_def Let_def)
  have key: "\<And>x. ieq (ItemName x) n = (toLowerCase (ItemName x) = toLowerCase (ItemName d))"
    using m by (auto simp: ieq_def)
  have one: "filter (\<lambda>x. ieq (ItemName x) n) ?store = [d]"
    unfolding key using wf d
    by (intro filter_distinct_key [where f = "\<lambda>x. toLowerCase (ItemName x)"])
       (simp_all add: well_formed_def)
  have "length (filter (\<lambda>x. ieq (ItemName x) n) ?store) + length ?rest = length ?store"
    by (rule sum_length_filter_compl)
  with one have count: "length ?store' = length ?store"
    by simp
  have mine: "filter (\<lambda>x. ieq (ItemName x) n) ?store' = [?new]"
    by (simp add: ieq_def)
  have others: "filter (\<lambda>x. \<not> ieq (ItemName x) n) ?store' = ?rest"
    by (simp add: ieq_def)
  have "\<exists>store'.
      profile_manager Save n MaxProfiles now w = (Succeeded Saved, w\<lparr>ProfilesStore := store'\<rparr>)
      \<and> length (Get_Profiles (w\<lparr>ProfilesStore := store'\<rparr>)) = length (Get_Profiles w)
      \<and> filter (\<lambda>x. ieq (ItemName x) n) store' = [?new]
      \<and> filter (\<lambda>x. \<not> ieq (ItemName x) n) store' = ?rest"
    if "UserData w = Some user"
    using saved [OF that] count mine others
    by (intro exI [of _ ?store']) (simp add: length_Get_Profiles)
  with missing show ?thesis by blast
qed

text \<open>
  \<^verbatim>\<open>Load\<close> of a plain name that matches no profile fails with \<open>NotFound\<close> and leaves the
  whole machine as it was.
\<close>

lemma Load_plain_name_not_found:
  assumes n: "plain_name n"
    and store: "list_all (\<lambda>d. directory_name (ItemName d)) (ProfilesStore w)"
    and new: "\<forall>d \<in> set (ProfilesStore w). \<not> ieq (ItemName d) n"
  shows "profile_manager Load n MaxProfiles now w = (Failed NotFound, w)"
  using plain_name_valid [OF n] path_pattern_plain [OF n store] new
  by (simp add: Switch_Profile_def Test_Path_plain)

text \<open>
  \<^verbatim>\<open>Delete\<close> of a plain name fails with \<open>NotFound\<close>, changing nothing, when no profile
  matches the name, and otherwise removes the matching profile with all it holds and
  leaves the rest of the machine, \<^verbatim>\<open>active_profile.txt\<close> included, as it was.
\<close>

lemma Delete_plain_name:
  assumes n: "plain_name n"
    and store: "list_all (\<lambda>d. directory_name (ItemName d)) (ProfilesStore w)"
  shows "profile_manager Delete n MaxProfiles now w
         = (if \<forall>d \<in> set (ProfilesStore w). \<not> ieq (ItemName d) n then (Failed NotFound, w)
            else (Succeeded Deleted,
                  w\<lparr>ProfilesStore := filter (\<lambda>d. \<not> ieq (ItemName d) n) (ProfilesStore w)\<rparr>))"
  using plain_name_valid [OF n] path_pattern_plain [OF n store]
  by (simp add: Remove_Profile_def Test_Path_plain Remove_Item_plain)

subsection \<open>Save (C1, C2)\<close>

text \<open>
  C1 fails on the code. \<^verbatim>\<open>Save-Profile\<close> takes \<^verbatim>\<open>Get-Profiles\<close> without \<^verbatim>\<open>@( )\<close>, so with
  exactly one profile saved it reads a count of three (see \<open>unwrapped_Count\<close>). With
  \<^verbatim>\<open>MaxProfiles = 2\<close>: \<^verbatim>\<open>Save a\<close> on an empty store succeeds, and \<^verbatim>\<open>Save b\<close> right after it
  fails with \<open>CapacityExceeded\<close>, with one profile saved. With \<open>a\<close> and \<open>b\<close> saved,
  \<^verbatim>\<open>Save c\<close> fails with \<open>CapacityExceeded\<close> and \<^verbatim>\<open>Delete a\<close> leaves \<open>b\<close> alone, as the
  specification says; but \<^verbatim>\<open>Save c\<close> then fails again with \<open>CapacityExceeded\<close>, changing
  nothing, where \<^verbatim>\<open>List\<close> on the same store counts one profile of two. The same save
  fails with \<^verbatim>\<open>MaxProfiles = 3\<close> and succeeds with \<^verbatim>\<open>MaxProfiles = 4\<close>.
\<close>

theorem Save_with_one_profile_saved:
  "profile_manager Save ''a'' 2 0 (machine [])
     = (Succeeded Saved,
        (machine [])\<lparr>ProfilesStore :=
           [\<lparr>ItemName = ''a'', CreationTime = 0, Children = [File ''state.vscdb'' ''live'']\<rparr>]\<rparr>)
   \<and> fst (profile_manager Save ''b'' 2 1 (snd (profile_manager Save ''a'' 2 0 (machine []))))
     = Failed CapacityExceeded
   \<and> profile_manager Save ''c'' 2 0 (machine [''a'', ''b''])
     = (Failed CapacityExceeded, machine [''a'', ''b''])
   \<and> profile_manager Delete ''a'' 2 0 (machine [''a'', ''b''])
     = (Succeeded Deleted, machine [''b''])
   \<and> profile_manager Save ''c'' 2 0
       (snd (profile_manager Delete ''a'' 2 0 (machine [''a'', ''b''])))
     = (Failed CapacityExceeded, machine [''b''])
   \<and> fst (profile_manager List [] 2 0 (machine [''b'']))
     = Succeeded (Listing (Get_Profiles (machine [''b''])) 1 2)
   \<and> fst (profile_manager Save ''c'' 3 0 (machine [''b''])) = Failed CapacityExceeded
   \<and> fst (profile_manager Save ''c'' 4 0 (machine [''b''])) = Succeeded Saved"
  by code_simp

text \<open>
  C2 fails on the code. \<^verbatim>\<open>Save-Profile\<close> refuses the wildcards \<^verbatim>\<open>*\<close> and \<^verbatim>\<open>?\<close> in a name and
  lets the brackets pass, and it hands the name to \<^verbatim>\<open>-Path\<close>, which reads \<^verbatim>\<open>[ab]\<close> as
  ``\<open>a\<close> or \<open>b\<close>''. From an empty store, at times 1, 2 and 3: \<^verbatim>\<open>Save [ab]\<close> creates the
  profile \<^verbatim>\<open>[ab]\<close> and \<^verbatim>\<open>Save a\<close> the profile \<open>a\<close>. \<^verbatim>\<open>Save [ab]\<close>, the name of an existing
  profile, then succeeds; it removes the profile \<open>a\<close>, so that \<^verbatim>\<open>List\<close> counts one
  profile where it counted two, and it leaves the profile \<^verbatim>\<open>[ab]\<close> with its creation
  time 1 and its old snapshot, the live session directory copied below it.
\<close>

theorem Save_existing_bracket_name:
  "(let w1 = snd (profile_manager Save ''[ab]'' 5 1 (machine []));
        w2 = snd (profile_manager Save ''a'' 5 2
                    (w1\<lparr>UserData := Some [File ''state.vscdb'' ''second'']\<rparr>));
        saved = profile_manager Save ''[ab]'' 5 3
                  (w2\<lparr>UserData := Some [File ''state.vscdb'' ''third'']\<rparr>)
    in ProfilesStore w2
         = [\<lparr>ItemName = ''[ab]'', CreationTime = 1,
              Children = [File ''state.vscdb'' ''live'']\<rparr>,
            \<lparr>ItemName = ''a'', CreationTime = 2,
              Children = [File ''state.vscdb'' ''second'']\<rparr>]
       \<and> filter (\<lambda>p. ieq (Name p) ''[ab]'') (Get_Profiles w2) \<noteq> []
       \<and> fst saved = Succeeded Saved
       \<and> ProfilesStore (snd saved)
         = [\<lparr>ItemName = ''[ab]'', CreationTime = 1,
              Children = [File ''state.vscdb'' ''live'',
                          Directory ''User'' [File ''state.vscdb'' ''third'']]\<rparr>]
       \<and> length (Get_Profiles w2) = 2
       \<and> length (Get_Profiles (snd saved)) = 1)"
  by code_simp

subsection \<open>Switch and Delete (C3, C7)\<close>

text \<open>
  C3 fails on the code. \<^verbatim>\<open>Switch-Profile\<close> hands the name to \<^verbatim>\<open>-Path\<close> with no test of its
  characters at all. With the profiles \<open>a\<close> and \<open>work\<close> saved, no profile is called
  \<^verbatim>\<open>[ab]\<close>; \<^verbatim>\<open>Load [ab]\<close> finds the profile \<open>a\<close>, stops the application, renames the live
  session directory to the backup, copies the profile \<open>a\<close> in its place and starts
  the application. \<^verbatim>\<open>Load *\<close> with the one profile \<open>work\<close> saved loads that profile in
  the same way. \<^verbatim>\<open>Load carol\<close> fails with \<open>NotFound\<close> and changes nothing.
\<close>

theorem Load_wildcard_name:
  "filter (\<lambda>p. ieq (Name p) ''[ab]'') (Get_Profiles (machine [''a'', ''work''])) = []
   \<and> profile_manager Load ''[ab]'' 5 0 (machine [''a'', ''work''])
     = (Succeeded Loaded,
        (machine [''a'', ''work''])
          \<lparr>UserData := Some [File ''state.vscdb'' ''a''],
           SwitchingBackup := Some [File ''state.vscdb'' ''live''],
           Running := False, Launches := 1, CleanupJobs := 1\<rparr>)
   \<and> filter (\<lambda>p. ieq (Name p) ''*'') (Get_Profiles (machine [''work''])) = []
   \<and> profile_manager Load ''*'' 5 0 (machine [''work''])
     = (Succeeded Loaded,
        (machine [''work''])
          \<lparr>UserData := Some [File ''state.vscdb'' ''work''],
           SwitchingBackup := Some [File ''state.vscdb'' ''live''],
           Running := False, Launches := 1, CleanupJobs := 1\<rparr>)
   \<and> profile_manager Load ''carol'' 5 0 (machine [''a'', ''work''])
     = (Failed NotFound, machine [''a'', ''work''])"
  by code_simp

text \<open>
  C7 fails on the code. \<^verbatim>\<open>Remove-Profile\<close> hands the name to \<^verbatim>\<open>-Path\<close> with no test of its
  characters. With the profiles \<open>a\<close>, \<open>b\<close> and \<open>work\<close> saved and the pointer at \<open>a\<close>, no
  profile is called \<^verbatim>\<open>[ab]\<close>; \<^verbatim>\<open>Delete [ab]\<close> succeeds and removes the profiles \<open>a\<close> and
  \<open>b\<close>, and \<^verbatim>\<open>Delete *\<close> removes all three. The pointer stays at \<open>a\<close>. \<^verbatim>\<open>Delete carol\<close>
  fails with \<open>NotFound\<close> and changes nothing, and \<^verbatim>\<open>Delete a\<close> removes the profile \<open>a\<close>
  alone.
\<close>

theorem Delete_wildcard_name:
  "filter (\<lambda>p. ieq (Name p) ''[ab]'') (Get_Profiles (machine [''a'', ''b'', ''work''])) = []
   \<and> profile_manager Delete ''[ab]'' 5 0
       ((machine [''a'', ''b'', ''work''])\<lparr>ACTIVE_PROFILE_FILE := Some ''a''\<rparr>)
     = (Succeeded Deleted, (machine [''work''])\<lparr>ACTIVE_PROFILE_FILE := Some ''a''\<rparr>)
   \<and> profile_manager Delete ''*'' 5 0
       ((machine [''a'', ''b'', ''work''])\<lparr>ACTIVE_PROFILE_FILE := Some ''a''\<rparr>)
     = (Succeeded Deleted, (machine [])\<lparr>ACTIVE_PROFILE_FILE := Some ''a''\<rparr>)
   \<and> profile_manager Delete ''carol'' 5 0
       ((machine [''a'', ''b'', ''work''])\<lparr>ACTIVE_PROFILE_FILE := Some ''a''\<rparr>)
     = (Failed NotFound, (machine [''a'', ''b'', ''work''])\<lparr>ACTIVE_PROFILE_FILE := Some ''a''\<rparr>)
   \<and> profile_manager Delete ''a'' 5 0
       ((machine [''a'', ''b'', ''work''])\<lparr>ACTIVE_PROFILE_FILE := Some ''a''\<rparr>)
     = (Succeeded Deleted, (machine [''b'', ''work''])\<lparr>ACTIVE_PROFILE_FILE := Some ''a''\<rparr>)"
  by code_simp

subsection \<open>The pattern matcher (C5, C10)\<close>

text \<open>
  C5. \<open>containsRateLimitError\<close> is the specification's \<open>Matches\<close>: it is true exactly
  when some keyword of the fixed list occurs in the text ignoring case. It is true of
  \<^verbatim>\<open>Error: RESOURCE_EXHAUSTED\<close> and false of \<^verbatim>\<open>build succeeded\<close>.
\<close>

theorem containsRateLimitError_Matches:
  "(containsRateLimitError text \<longleftrightarrow> Matches text)
   \<and> containsRateLimitError ''Error: RESOURCE_EXHAUSTED''
   \<and> \<not> containsRateLimitError ''build succeeded''"
proof -
  have "containsRateLimitError text \<longleftrightarrow> Matches text"
    by (simp add: containsRateLimitError_iff Matches_def sublist_toLowerCase)
  moreover have "containsRateLimitError ''Error: RESOURCE_EXHAUSTED''"
    by code_simp
  moreover have "\<not> containsRateLimitError ''build succeeded''"
    by code_simp
  ultimately show ?thesis by simp
qed

theorem containsRateLimitError_Matches_witness:
  "containsRateLimitError ''Quota Exceeded for model''
   \<and> Matches ''Quota Exceeded for model''"
proof -
  have "containsRateLimitError ''Quota Exceeded for model''"
    by code_simp
  with containsRateLimitError_Matches [of "''Quota Exceeded for model''"]
  show ?thesis by simp
qed

text \<open>
  C10. \<^verbatim>\<open>429\<close> is one of the patterns, and \<open>containsRateLimitError\<close> is true of every text
  in which the three characters \<^verbatim>\<open>429\<close> stand, whatever comes before and after them.
\<close>

theorem containsRateLimitError_429:
  "''429'' \<in> set RATE_LIMIT_PATTERNS
   \<and> containsRateLimitError (before @ ''429'' @ after)"
  using containsRateLimitError_around_429 [of before after]
  by (simp add: RATE_LIMIT_PATTERNS_def)

theorem containsRateLimitError_429_witness:
  "containsRateLimitError ''build 14290 passed''"
  using containsRateLimitError_429 [of "''build 1''" "''0 passed''"]
  by simp

subsection \<open>The cooldown (C4)\<close>

lemma handleRateLimitDetected_in_cooldown:
  "now - lastRateLimitAlert (fst s) < RATE_LIMIT_COOLDOWN \<Longrightarrow> handleRateLimitDetected pick now s = s"
  by (cases s) (simp add: handleRateLimitDetected_def)

lemma handleRateLimitDetected_after_cooldown:
  assumes "\<not> now - lastRateLimitAlert (fst s) < RATE_LIMIT_COOLDOWN"
  shows "lastRateLimitAlert (fst (handleRateLimitDetected pick now s)) = now"
    and "length (Shown (fst (handleRateLimitDetected pick now s))) = length (Shown (fst s)) + 1"
  using assms
  by (cases s; simp add: handleRateLimitDetected_def Let_def showMessage_def split: option.splits)+

lemma handleRateLimitDetected_lastLogSize:
  "lastLogSize (fst (handleRateLimitDetected pick now s)) = lastLogSize (fst s)"
  by (cases s) (simp add: handleRateLimitDetected_def Let_def showMessage_def split: option.splits)

lemma handleRateLimitDetected_pointer:
  "ACTIVE_PROFILE_FILE (snd (handleRateLimitDetected pick now s)) = ACTIVE_PROFILE_FILE (snd s)"
  by (cases s)
     (simp add: handleRateLimitDetected_def Let_def showMessage_def pointer_Load
        split: option.splits)

text \<open>
  C4, as the code has it. The cooldown starts with \<^verbatim>\<open>lastRateLimitAlert = 0\<close>, the epoch
  of \<^verbatim>\<open>Date.now()\<close>. A call of \<^verbatim>\<open>handleRateLimitDetected\<close> less than 60000 ms after
  \<^verbatim>\<open>lastRateLimitAlert\<close> does nothing at all; any other call sets \<^verbatim>\<open>lastRateLimitAlert\<close>
  to its time and shows its alert. So from activation, for every time \<open>t0\<close> that is at
  least 60000 ms after the epoch, the call at \<open>t0\<close> alerts, the call 30 s later does
  nothing, and the call 61 s after \<open>t0\<close> alerts again.
\<close>

theorem handleRateLimitDetected_cooldown:
  "(now - lastRateLimitAlert e < RATE_LIMIT_COOLDOWN
      \<longrightarrow> handleRateLimitDetected pick now (e, w) = (e, w))
   \<and> (\<not> now - lastRateLimitAlert e < RATE_LIMIT_COOLDOWN
      \<longrightarrow> lastRateLimitAlert (fst (handleRateLimitDetected pick now (e, w))) = now
          \<and> length (Shown (fst (handleRateLimitDetected pick now (e, w)))) = length (Shown e) + 1)
   \<and> RATE_LIMIT_COOLDOWN = 60000
   \<and> lastRateLimitAlert activated = 0
   \<and> (60000 \<le> t0 \<longrightarrow>
        (let s1 = handleRateLimitDetected pick1 t0 (activated, w);
             s2 = handleRateLimitDetected pick2 (t0 + 30000) s1;
             s3 = handleRateLimitDetected pick3 (t0 + 61000) s2
         in length (Shown (fst s1)) = 1 \<and> lastRateLimitAlert (fst s1) = t0
            \<and> s2 = s1
            \<and> length (Shown (fst s3)) = 2 \<and> lastRateLimitAlert (fst s3) = t0 + 61000))"
proof -
  have skip: "handleRateLimitDetected pick now (e, w) = (e, w)"
    if "now - lastRateLimitAlert e < RATE_LIMIT_COOLDOWN"
    using that handleRateLimitDetected_in_cooldown [of now "(e, w)" pick] by simp
  have fire: "lastRateLimitAlert (fst (handleRateLimitDetected pick now (e, w))) = now
      \<and> length (Shown (fst (handleRateLimitDetected pick now (e, w)))) = length (Shown e) + 1"
    if "\<not> now - lastRateLimitAlert e < RATE_LIMIT_COOLDOWN"
    using that handleRateLimitDetected_after_cooldown [of now "(e, w)" pick] by simp
  have scenario: "length (Shown (fst s1)) = 1 \<and> lastRateLimitAlert (fst s1) = t0
            \<and> s2 = s1
            \<and> length (Shown (fst s3)) = 2 \<and> lastRateLimitAlert (fst s3) = t0 + 61000"
    if t0: "60000 \<le> t0"
      and s1: "s1 = handleRateLimitDetected pick1 t0 (activated, w)"
      and s2: "s2 = handleRateLimitDetected pick2 (t0 + 30000) s1"
      and s3: "s3 = handleRateLimitDetected pick3 (t0 + 61000) s2"
    for s1 s2 s3
  proof -
    have "\<not> t0 - lastRateLimitAlert (fst (activated, w)) < RATE_LIMIT_COOLDOWN"
      using t0 by (simp add: activated_def RATE_LIMIT_COOLDOWN_def)
    from handleRateLimitDetected_after_cooldown [OF this, of pick1]
    have 1: "lastRateLimitAlert (fst s1) = t0" "length (Shown (fst s1)) = 1"
      by (simp_all add: s1 activated_def)
    then have "t0 + 30000 - lastRateLimitAlert (fst s1) < RATE_LIMIT_COOLDOWN"
      by (simp add: RATE_LIMIT_COOLDOWN_def)
    then have 2: "s2 = s1"
      unfolding s2 by (rule handleRateLimitDetected_in_cooldown)
    with 1 have "\<not> t0 + 61000 - lastRateLimitAlert (fst s2) < RATE_LIMIT_COOLDOWN"
      by (simp add: RATE_LIMIT_COOLDOWN_def)
    from handleRateLimitDetected_after_cooldown [OF this, of pick3]
    have "lastRateLimitAlert (fst s3) = t0 + 61000" "length (Shown (fst s3)) = 2"
      using 1 2 by (simp_all add: s3)
    with 1 2 show ?thesis by simp
  qed
  from skip fire scenario show ?thesis
    by (simp add: RATE_LIMIT_COOLDOWN_def activated_def Let_def)
qed

theorem handleRateLimitDetected_cooldown_witness:
  "(let s1 = handleRateLimitDetected None 1700000000000 (activated, machine []);
        s2 = handleRateLimitDetected None 1700000030000 s1;
        s3 = handleRateLimitDetected None 1700000061000 s2
    in Shown (fst s1) = [RateLimit_SaveSomeProfiles] \<and> lastRateLimitAlert (fst s1) = 1700000000000
       \<and> s2 = s1
       \<and> length (Shown (fst s3)) = 2
       \<and> lastRateLimitAlert (fst s3) = 1700000061000)"
proof -
  have "Shown (fst (handleRateLimitDetected None 1700000000000 (activated, machine [])))
        = [RateLimit_SaveSomeProfiles]"
    by (simp add: handleRateLimitDetected_def activated_def RATE_LIMIT_COOLDOWN_def Let_def
        getProfiles_def runProfileManager_def command_line_keeps_def List_Profiles_def
        Get_Profiles_def machine_def showMessage_def)
  moreover from handleRateLimitDetected_cooldown
    [of 0 activated None "machine []" 1700000000000 None None None]
  have "let s1 = handleRateLimitDetected None 1700000000000 (activated, machine []);
            s2 = handleRateLimitDetected None (1700000000000 + 30000) s1;
            s3 = handleRateLimitDetected None (1700000000000 + 61000) s2
        in length (Shown (fst s1)) = 1 \<and> lastRateLimitAlert (fst s1) = 1700000000000
           \<and> s2 = s1
           \<and> length (Shown (fst s3)) = 2
           \<and> lastRateLimitAlert (fst s3) = 1700000000000 + 61000"
    by simp
  ultimately show ?thesis
    unfolding Let_def by auto
qed

text \<open>
  Where C4 as stated fails: the first call after activation does nothing when its time
  is less than 60000 ms after the epoch, because \<^verbatim>\<open>lastRateLimitAlert\<close> starts at \<open>0\<close>.
\<close>

theorem handleRateLimitDetected_first_call_counterexample:
  "lastRateLimitAlert activated = 0
   \<and> handleRateLimitDetected None 1000 (activated, machine [''a'']) = (activated, machine [''a''])
   \<and> handleRateLimitDetected None 59999 (activated, machine [''a'']) = (activated, machine [''a''])"
  by (simp add: handleRateLimitDetected_def activated_def RATE_LIMIT_COOLDOWN_def)

subsection \<open>The pointer on a switch (C6)\<close>

lemma switchProfile_pointer:
  "ACTIVE_PROFILE_FILE (snd (switchProfile pick now s)) = ACTIVE_PROFILE_FILE (snd s)"
proof (cases s)
  case (Pair e w)
  have "ACTIVE_PROFILE_FILE (snd (case runProfileManager Load n now w of
                                    (result, w1) \<Rightarrow>
                                      (case result of
                                         Failed err \<Rightarrow> (showMessage (FailedToSwitch err) e, w1)
                                       | _ \<Rightarrow> (e, w1))))
        = ACTIVE_PROFILE_FILE w" for n
    using pointer_Load [of n now w]
    by (auto split: prod.splits ending.splits)
  with Pair show ?thesis
    by (simp add: switchProfile_def Let_def showMessage_def split: option.splits)
qed

text \<open>
  C6 fails on the code. The command-palette switch and the switch offered by the
  rate-limit prompt run \<^verbatim>\<open>Load\<close> and never write \<^verbatim>\<open>active_profile.txt\<close>; only the slot
  buttons call \<^verbatim>\<open>setActiveProfile\<close> before \<^verbatim>\<open>Load\<close>. With the profiles \<open>alice\<close> and \<open>bob\<close>
  saved and the pointer at \<open>bob\<close>, the command-palette switch to \<open>alice\<close> loads alice's
  session and starts the application, shows no error, and leaves the pointer at
  \<open>bob\<close>; the slot button for \<open>alice\<close> does the same and sets the pointer to \<open>alice\<close>.
\<close>

theorem switchProfile_leaves_pointer:
  "ACTIVE_PROFILE_FILE (snd (switchProfile pick now (e, w))) = ACTIVE_PROFILE_FILE w
   \<and> ACTIVE_PROFILE_FILE (snd (handleRateLimitDetected pick now (e, w))) = ACTIVE_PROFILE_FILE w
   \<and> (let w0 = (machine [''alice'', ''bob''])\<lparr>ACTIVE_PROFILE_FILE := Some ''bob''\<rparr>;
           s = switchProfile (Some 0) 0 (activated, w0)
       in UserData (snd s) = Some [File ''state.vscdb'' ''alice'']
          \<and> Launches (snd s) = 1
          \<and> Shown (fst s) = []
          \<and> ACTIVE_PROFILE_FILE (snd s) = Some ''bob'')
   \<and> (let w0 = (machine [''alice'', ''bob''])\<lparr>ACTIVE_PROFILE_FILE := Some ''bob''\<rparr>;
           s = slotAction 0 0 (activated, w0)
       in UserData (snd s) = Some [File ''state.vscdb'' ''alice'']
          \<and> Launches (snd s) = 1
          \<and> Shown (fst s) = []
          \<and> ACTIVE_PROFILE_FILE (snd s) = Some ''alice'')"
proof -
  have 1: "ACTIVE_PROFILE_FILE (snd (switchProfile pick now (e, w))) = ACTIVE_PROFILE_FILE w"
    using switchProfile_pointer [of pick now "(e, w)"] by simp
  have 2: "ACTIVE_PROFILE_FILE (snd (handleRateLimitDetected pick now (e, w)))
           = ACTIVE_PROFILE_FILE w"
    using handleRateLimitDetected_pointer [of pick now "(e, w)"] by simp
  have 3: "switchProfile (Some 0) 0
             (activated, (machine [''alice'', ''bob''])\<lparr>ACTIVE_PROFILE_FILE := Some ''bob''\<rparr>)
           = (activated,
              (machine [''alice'', ''bob''])
                \<lparr>UserData := Some [File ''state.vscdb'' ''alice''],
                 SwitchingBackup := Some [File ''state.vscdb'' ''live''],
                 Running := False, Launches := 1, CleanupJobs := 1,
                 ACTIVE_PROFILE_FILE := Some ''bob''\<rparr>)"
    by code_simp
  have 4: "slotAction 0 0
             (activated, (machine [''alice'', ''bob''])\<lparr>ACTIVE_PROFILE_FILE := Some ''bob''\<rparr>)
           = (activated,
              (machine [''alice'', ''bob''])
                \<lparr>UserData := Some [File ''state.vscdb'' ''alice''],
                 SwitchingBackup := Some [File ''state.vscdb'' ''live''],
                 Running := False, Launches := 1, CleanupJobs := 1,
                 ACTIVE_PROFILE_FILE := Some ''alice''\<rparr>)"
    by code_simp
  show ?thesis
    unfolding Let_def 3 4 using 1 2 by (simp add: machine_def activated_def)
qed

subsection \<open>The log poll (C8, C9)\<close>

lemma readNewContent_Some:
  "readNewContent fs lastSize = Some (statsSize, newContent) \<Longrightarrow>
     \<not> fsThrows fs \<and> (\<exists>file. mainLog fs = Some file \<and> statsSize = length file
       \<and> lastSize < length file
       \<and> newContent = take (min (length file - lastSize) 10000) (drop lastSize file))"
  by (auto simp: readNewContent_def Let_def split: if_splits option.splits)

lemma readNewContent_growth:
  "\<not> fsThrows fs \<Longrightarrow> mainLog fs = Some file \<Longrightarrow> lastSize < length file \<Longrightarrow>
     readNewContent fs lastSize
       = Some (length file, take (min (length file - lastSize) 10000) (drop lastSize file))"
  by (simp add: readNewContent_def Let_def)

lemma readNewContent_no_growth:
  "mainLog fs = Some file \<Longrightarrow> length file \<le> lastSize \<Longrightarrow> readNewContent fs lastSize = None"
  by (simp add: readNewContent_def Let_def)

lemma logCheckInterval_lastLogSize:
  "lastLogSize (fst (logCheckInterval fs pick now s)) =
     (case readNewContent fs (lastLogSize (fst s)) of
        None \<Rightarrow> lastLogSize (fst s)
      | Some (statsSize, newContent) \<Rightarrow> statsSize)"
  by (cases s)
     (simp add: logCheckInterval_def Let_def handleRateLimitDetected_lastLogSize
        split: option.splits prod.splits)

lemma slotAction_lastLogSize:
  "lastLogSize (fst (slotAction slotNum now s)) = lastLogSize (fst s)"
  by (cases s)
     (simp add: slotAction_def Let_def showMessage_def split: option.splits prod.splits ending.splits)

lemma saveProfile_lastLogSize:
  "lastLogSize (fst (saveProfile typed now s)) = lastLogSize (fst s)"
  by (cases s)
     (simp add: saveProfile_def Let_def showMessage_def split: option.splits prod.splits ending.splits)

lemma deleteProfile_lastLogSize:
  "lastLogSize (fst (deleteProfile pick confirmDelete now s)) = lastLogSize (fst s)"
  by (cases s)
     (simp add: deleteProfile_def Let_def showMessage_def split: option.splits prod.splits ending.splits)

lemma switchProfile_lastLogSize:
  "lastLogSize (fst (switchProfile pick now s)) = lastLogSize (fst s)"
  by (cases s)
     (simp add: switchProfile_def Let_def showMessage_def split: option.splits prod.splits ending.splits)

lemma listProfiles_lastLogSize:
  "lastLogSize (fst (listProfiles now s)) = lastLogSize (fst s)"
  by (cases s) (simp add: listProfiles_def Let_def showMessage_def)

lemma setActiveProfileCommand_lastLogSize:
  "lastLogSize (fst (setActiveProfileCommand pick now s)) = lastLogSize (fst s)"
  by (cases s)
     (simp add: setActiveProfileCommand_def Let_def showMessage_def split: option.splits)

lemma diagnosticListener_lastLogSize:
  "lastLogSize (fst (diagnosticListener diagnostics pick now s)) = lastLogSize (fst s)"
  by (simp add: diagnosticListener_def handleRateLimitDetected_lastLogSize)

lemma handle_lastLogSize_mono:
  "lastLogSize (fst s) \<le> lastLogSize (fst (handle now ev s))"
proof (cases ev)
  case (LogPoll fs pick)
  show ?thesis
  proof (cases "readNewContent fs (lastLogSize (fst s))")
    case None
    with LogPoll show ?thesis by (simp add: logCheckInterval_lastLogSize)
  next
    case (Some r)
    then obtain statsSize newContent where r: "r = (statsSize, newContent)" by (cases r)
    with Some readNewContent_Some [of fs "lastLogSize (fst s)" statsSize newContent]
    have "lastLogSize (fst s) < statsSize" by auto
    with LogPoll Some r show ?thesis by (simp add: logCheckInterval_lastLogSize)
  qed
qed (simp_all add: slotAction_lastLogSize saveProfile_lastLogSize deleteProfile_lastLogSize
       switchProfile_lastLogSize listProfiles_lastLogSize setActiveProfileCommand_lastLogSize
       diagnosticListener_lastLogSize)

lemma run_lastLogSize_mono:
  "lastLogSize (fst s) \<le> lastLogSize (fst (run events s))"
proof (induction events arbitrary: s)
  case Nil
  then show ?case by simp
next
  case (Cons a events)
  obtain now ev where a: "a = (now, ev)" by (cases a)
  have "lastLogSize (fst s) \<le> lastLogSize (fst (handle now ev s))"
    by (rule handle_lastLogSize_mono)
  also have "\<dots> \<le> lastLogSize (fst (run events (handle now ev s)))"
    by (rule Cons.IH)
  finally show ?case by (simp add: a)
qed

lemma mainLog_log_of: "mainLog (log_of bytes) = Some bytes"
  by (simp add: mainLog_def log_of_def Let_def)

lemma fsThrows_log_of: "\<not> fsThrows (log_of bytes)"
  by (simp add: log_of_def)

text \<open>
  C8. A poll that finds \<^verbatim>\<open>main.log\<close> no longer than \<^verbatim>\<open>lastLogSize\<close> does nothing at
  all. A poll never lowers \<^verbatim>\<open>lastLogSize\<close>, and when it changes it, the new value is the
  length of a \<^verbatim>\<open>main.log\<close> that is longer than the old value. Over any sequence of
  events of a session (polls, diagnostics, commands) \<^verbatim>\<open>lastLogSize\<close> never decreases.
\<close>

theorem lastLogSize_never_decreases:
  "(mainLog fs = Some file \<and> length file \<le> lastLogSize e
      \<longrightarrow> logCheckInterval fs pick now (e, w) = (e, w))
   \<and> lastLogSize e \<le> lastLogSize (fst (logCheckInterval fs pick now (e, w)))
   \<and> (lastLogSize (fst (logCheckInterval fs pick now (e, w))) \<noteq> lastLogSize e
      \<longrightarrow> (\<exists>grown. mainLog fs = Some grown \<and> lastLogSize e < length grown
             \<and> lastLogSize (fst (logCheckInterval fs pick now (e, w))) = length grown))
   \<and> lastLogSize (fst s) \<le> lastLogSize (fst (run events s))"
proof -
  have skipped: "logCheckInterval fs pick now (e, w) = (e, w)"
    if "mainLog fs = Some file" and "length file \<le> lastLogSize e"
    using readNewContent_no_growth [OF that] by (simp add: logCheckInterval_def)
  have mono: "lastLogSize e \<le> lastLogSize (fst (logCheckInterval fs pick now (e, w)))"
    using handle_lastLogSize_mono [of "(e, w)" now "LogPoll fs pick"] by simp
  have grown: "\<exists>grown. mainLog fs = Some grown \<and> lastLogSize e < length grown
             \<and> lastLogSize (fst (logCheckInterval fs pick now (e, w))) = length grown"
    if changed: "lastLogSize (fst (logCheckInterval fs pick now (e, w))) \<noteq> lastLogSize e"
  proof (cases "readNewContent fs (lastLogSize e)")
    case None
    with changed show ?thesis by (simp add: logCheckInterval_lastLogSize)
  next
    case (Some r)
    then obtain statsSize newContent where r: "r = (statsSize, newContent)" by (cases r)
    from Some r readNewContent_Some [of fs "lastLogSize e" statsSize newContent]
    obtain grown where "mainLog fs = Some grown" "statsSize = length grown"
      "lastLogSize e < length grown" by auto
    with Some r show ?thesis by (simp add: logCheckInterval_lastLogSize)
  qed
  from skipped mono grown run_lastLogSize_mono [of s events] show ?thesis by blast
qed

theorem lastLogSize_never_decreases_witness:
  "logCheckInterval (log_of ''old'') None 0 (activated\<lparr>lastLogSize := 8\<rparr>, machine [])
     = (activated\<lparr>lastLogSize := 8\<rparr>, machine [])
   \<and> 8 \<le> lastLogSize (fst (run [(0, LogPoll (log_of ''old'') None),
                                  (30000, LogPoll (log_of ''old, then new'') None),
                                  (60000, LogPoll (log_of ''short'') None)]
                              (activated\<lparr>lastLogSize := 8\<rparr>, machine [])))"
proof -
  note inst = lastLogSize_never_decreases
    [of "log_of ''old''" "''old''" "activated\<lparr>lastLogSize := 8\<rparr>" None 0 "machine []"
        "(activated\<lparr>lastLogSize := 8\<rparr>, machine [])"
        "[(0, LogPoll (log_of ''old'') None),
          (30000, LogPoll (log_of ''old, then new'') None),
          (60000, LogPoll (log_of ''short'') None)]"]
  from inst [THEN conjunct1]
  have skipped: "logCheckInterval (log_of ''old'') None 0
                   (activated\<lparr>lastLogSize := 8\<rparr>, machine [])
                 = (activated\<lparr>lastLogSize := 8\<rparr>, machine [])"
    by (simp add: mainLog_log_of)
  from inst [THEN conjunct2, THEN conjunct2, THEN conjunct2]
  have "8 \<le> lastLogSize (fst (run [(0, LogPoll (log_of ''old'') None),
                                  (30000, LogPoll (log_of ''old, then new'') None),
                                  (60000, LogPoll (log_of ''short'') None)]
                              (activated\<lparr>lastLogSize := 8\<rparr>, machine [])))"
    by (simp del: run.simps)
  with skipped show ?thesis by blast
qed

lemma containsRateLimitError_characters:
  assumes "containsRateLimitError text"
  shows "\<exists>pattern \<in> set RATE_LIMIT_PATTERNS. set (toLowerCase pattern) \<subseteq> set (toLowerCase text)"
  using assms unfolding containsRateLimitError_iff
  by (meson set_mono_sublist)

lemma no_pattern_of_x:
  "\<forall>pattern \<in> set RATE_LIMIT_PATTERNS. \<not> set (toLowerCase pattern) \<subseteq> {CHR ''x''}"
  by (simp add: RATE_LIMIT_PATTERNS_def toLowerCase_def toLowerCase_char_def)

lemma not_containsRateLimitError_replicate_x:
  "\<not> containsRateLimitError (replicate k CHR ''x'')"
proof
  assume "containsRateLimitError (replicate k CHR ''x'')"
  then obtain pattern where p: "pattern \<in> set RATE_LIMIT_PATTERNS"
    and sub: "set (toLowerCase pattern) \<subseteq> set (toLowerCase (replicate k CHR ''x''))"
    using containsRateLimitError_characters by blast
  have "toLowerCase (replicate k CHR ''x'') = replicate k CHR ''x''"
    by (simp add: toLowerCase_def toLowerCase_char_def)
  with sub have "set (toLowerCase pattern) \<subseteq> {CHR ''x''}"
    by (auto split: if_splits)
  with p no_pattern_of_x show False by blast
qed

text \<open>
  C9, as the code has it. When no file-system call of the cycle throws and \<^verbatim>\<open>main.log\<close>
  is longer than \<^verbatim>\<open>lastLogSize\<close>, the poll reads the bytes from offset \<^verbatim>\<open>lastLogSize\<close> on,
  but no more than 10000 of them, sets \<^verbatim>\<open>lastLogSize\<close> to the length of the file, and
  calls \<^verbatim>\<open>handleRateLimitDetected\<close> exactly when \<open>containsRateLimitError\<close> holds of the
  bytes read. The bytes read are all the appended bytes when no more than 10000 were
  appended, and the first 10000 of them otherwise. When a file-system call of the
  cycle throws, the poll does nothing at all: nothing is read, and \<^verbatim>\<open>lastLogSize\<close> and
  the rest of the state are as they were.
\<close>

theorem logCheckInterval_reads_growth:
  "(\<not> fsThrows fs \<and> mainLog fs = Some file \<and> lastLogSize e < length file \<longrightarrow>
      logCheckInterval fs pick now (e, w)
         = (let newContent = take (min (length file - lastLogSize e) 10000)
                               (drop (lastLogSize e) file);
                e1 = e\<lparr>lastLogSize := length file\<rparr>
            in if containsRateLimitError newContent
               then handleRateLimitDetected pick now (e1, w)
               else (e1, w))
       \<and> lastLogSize (fst (logCheckInterval fs pick now (e, w))) = length file
       \<and> take (min (length file - lastLogSize e) 10000) (drop (lastLogSize e) file)
           = take 10000 (drop (lastLogSize e) file)
       \<and> (if length file - lastLogSize e \<le> 10000
          then take 10000 (drop (lastLogSize e) file) = drop (lastLogSize e) file
          else length (take 10000 (drop (lastLogSize e) file)) = 10000))
   \<and> (fsThrows fs \<longrightarrow> logCheckInterval fs pick now (e, w) = (e, w))"
proof -
  have 1: "logCheckInterval fs pick now (e, w)
         = (let newContent = take (min (length file - lastLogSize e) 10000)
                               (drop (lastLogSize e) file);
                e1 = e\<lparr>lastLogSize := length file\<rparr>
            in if containsRateLimitError newContent
               then handleRateLimitDetected pick now (e1, w)
               else (e1, w))"
    if "\<not> fsThrows fs" and "mainLog fs = Some file" and "lastLogSize e < length file"
    by (simp add: logCheckInterval_def readNewContent_growth [OF that] Let_def)
  have 2: "lastLogSize (fst (logCheckInterval fs pick now (e, w))) = length file"
    if "\<not> fsThrows fs" and "mainLog fs = Some file" and "lastLogSize e < length file"
    by (simp add: logCheckInterval_lastLogSize readNewContent_growth [OF that])
  have 3: "take (min (length file - lastLogSize e) 10000) (drop (lastLogSize e) file)
           = take 10000 (drop (lastLogSize e) file)"
    by (simp add: min_def)
  have 4: "if length file - lastLogSize e \<le> 10000
          then take 10000 (drop (lastLogSize e) file) = drop (lastLogSize e) file
          else length (take 10000 (drop (lastLogSize e) file)) = 10000"
    by simp
  have 5: "logCheckInterval fs pick now (e, w) = (e, w)" if "fsThrows fs"
    using that by (simp add: logCheckInterval_def readNewContent_def)
  from 1 2 3 4 5 show ?thesis by blast
qed

theorem logCheckInterval_reads_growth_witness:
  "logCheckInterval (log_of ''ok. HTTP 429'') None 1700000000000
     (activated\<lparr>lastLogSize := 4\<rparr>, machine [])
   = (\<lparr>lastRateLimitAlert = 1700000000000, lastLogSize = 12,
       Shown = [RateLimit_SaveSomeProfiles]\<rparr>, machine [])"
proof -
  have h: "\<not> fsThrows (log_of ''ok. HTTP 429'')"
    "mainLog (log_of ''ok. HTTP 429'') = Some ''ok. HTTP 429''"
    "lastLogSize (activated\<lparr>lastLogSize := 4\<rparr>) < length ''ok. HTTP 429''"
    by (simp_all add: mainLog_log_of fsThrows_log_of)
  have c: "containsRateLimitError ''HTTP 429''"
    by code_simp
  from logCheckInterval_reads_growth
    [of "log_of ''ok. HTTP 429''" "''ok. HTTP 429''" "activated\<lparr>lastLogSize := 4\<rparr>"
        None 1700000000000 "machine []", THEN conjunct1] h
  have "logCheckInterval (log_of ''ok. HTTP 429'') None 1700000000000
          (activated\<lparr>lastLogSize := 4\<rparr>, machine [])
        = (let newContent = take (min (length ''ok. HTTP 429''
                                        - lastLogSize (activated\<lparr>lastLogSize := 4\<rparr>)) 10000)
                              (drop (lastLogSize (activated\<lparr>lastLogSize := 4\<rparr>))
                                 ''ok. HTTP 429'');
               e1 = activated\<lparr>lastLogSize := 4, lastLogSize := length ''ok. HTTP 429''\<rparr>
           in if containsRateLimitError newContent
              then handleRateLimitDetected None 1700000000000 (e1, machine [])
              else (e1, machine []))"
    by blast
  with c show ?thesis
    by (simp add: Let_def handleRateLimitDetected_def activated_def RATE_LIMIT_COOLDOWN_def
        getProfiles_def runProfileManager_def command_line_keeps_def List_Profiles_def
        Get_Profiles_def machine_def showMessage_def)
qed

text \<open>
  Where C9 as stated fails. A log of 10003 bytes whose last three are \<^verbatim>\<open>429\<close> is polled
  from \<^verbatim>\<open>lastLogSize = 0\<close>: the appended bytes match, but only the first 10000 are read,
  so nothing is detected, and \<^verbatim>\<open>lastLogSize\<close> moves to 10003 (a log that is just \<^verbatim>\<open>429\<close>
  does raise the alert at that time). And when a file-system call throws, the cycle
  reads nothing and leaves \<^verbatim>\<open>lastLogSize\<close> as it was.
\<close>

theorem logCheckInterval_counterexample:
  "mainLog (log_of (replicate 10000 CHR ''x'' @ ''429''))
     = Some (replicate 10000 CHR ''x'' @ ''429'')
   \<and> containsRateLimitError (drop 0 (replicate 10000 CHR ''x'' @ ''429''))
   \<and> logCheckInterval (log_of (replicate 10000 CHR ''x'' @ ''429'')) None 1700000000000
       (activated, machine [])
     = (activated\<lparr>lastLogSize := 10003\<rparr>, machine [])
   \<and> Shown (fst (logCheckInterval (log_of ''429'') None 1700000000000 (activated, machine [])))
     = [RateLimit_SaveSomeProfiles]
   \<and> logCheckInterval ((log_of ''429'')\<lparr>fsThrows := True\<rparr>) None 1700000000000
       (activated, machine [])
     = (activated, machine [])"
proof -
  have 1: "containsRateLimitError (drop 0 (replicate 10000 CHR ''x'' @ ''429''))"
    using containsRateLimitError_around_429 [of "replicate 10000 CHR ''x''" "[]"] by simp
  have 2: "logCheckInterval (log_of (replicate 10000 CHR ''x'' @ ''429'')) None 1700000000000
       (activated, machine [])
     = (activated\<lparr>lastLogSize := 10003\<rparr>, machine [])"
    by (simp add: logCheckInterval_def readNewContent_def mainLog_log_of fsThrows_log_of
        Let_def activated_def not_containsRateLimitError_replicate_x)
  have c: "containsRateLimitError ''429''"
    by code_simp
  have 3: "Shown (fst (logCheckInterval (log_of ''429'') None 1700000000000 (activated, machine [])))
     = [RateLimit_SaveSomeProfiles]"
    using c
    by (simp add: logCheckInterval_def readNewContent_def mainLog_log_of fsThrows_log_of
        Let_def handleRateLimitDetected_def activated_def RATE_LIMIT_COOLDOWN_def
        getProfiles_def runProfileManager_def command_line_keeps_def List_Profiles_def
        Get_Profiles_def machine_def showMessage_def)
  have 4: "logCheckInterval ((log_of ''429'')\<lparr>fsThrows := True\<rparr>) None 1700000000000
       (activated, machine [])
     = (activated, machine [])"
    by (simp add: logCheckInterval_def readNewContent_def)
  from 1 2 3 4 mainLog_log_of show ?thesis by blast
qed

end
